theory Spec2Isabelle
  imports Complex_Main
begin

section \<open>GNSS SmartNav: a shallow embedding\<close>

text \<open>
  The dashboard's Python is embedded function by function. Python floats are read as
  real numbers (no rounding error, no NaN, no infinities), Python ints as \<open>int\<close>.
  Everything outside the repository that the code talks to is made explicit:
  \<^item> the numpy generator (\<open>np.random.default_rng\<close>) and the process-global generator of
    the \<open>random\<close> module are records of drawing functions over an abstract generator
    state, so a draw takes the state and returns the value with the next state;
  \<^item> an HTTP exchange is a value of \<open>http_reply\<close>: the request raised, or a status
    code arrived with a body that parses as JSON or does not;
  \<^item> a raised exception is the \<open>Inl\<close> of a sum type.
\<close>

subsection \<open>Exceptions, JSON values and HTTP replies\<close>

datatype exn =
    Timeout
  | ConnectionError
  | HTTPError nat
  | JSONDecodeError
  | KeyError string
  | IndexError
  | TypeError
  | AttributeError
  | ValueError string
  | GeocoderTimedOut
  | GeocoderUnavailable
  | GeocoderServiceError

datatype json =
    JNull
  | JBool bool
  | JNum real
  | JStr string
  | JArr "json list"
  | JObj "(string \<times> json) list"

text \<open>\<open>requests.get\<close>/\<open>requests.post\<close>: either the call raises, or a response comes back
  with a status code and a body (\<open>None\<close> when the body is not JSON).\<close>

datatype http_reply = Fails exn | Reply nat "json option"

definition bind_exn :: "exn + 'a \<Rightarrow> ('a \<Rightarrow> exn + 'b) \<Rightarrow> exn + 'b" where
  "bind_exn m f = (case m of Inl e \<Rightarrow> Inl e | Inr x \<Rightarrow> f x)"

text \<open>A list comprehension whose element expression may raise: the first exception ends it.\<close>

fun map_exn :: "('a \<Rightarrow> exn + 'b) \<Rightarrow> 'a list \<Rightarrow> exn + 'b list" where
  "map_exn f [] = Inr []"
| "map_exn f (x # xs) =
     bind_exn (f x) (\<lambda>y. bind_exn (map_exn f xs) (\<lambda>ys. Inr (y # ys)))"

text \<open>Python truthiness (\<open>if x\<close>, \<open>not x\<close>) of a parsed JSON value.\<close>

fun py_truthy :: "json \<Rightarrow> bool" where
  "py_truthy JNull = False"
| "py_truthy (JBool b) = b"
| "py_truthy (JNum x) = (x \<noteq> 0)"
| "py_truthy (JStr s) = (s \<noteq> [])"
| "py_truthy (JArr xs) = (xs \<noteq> [])"
| "py_truthy (JObj kvs) = (kvs \<noteq> [])"

text \<open>\<open>d["k"]\<close> with a string key: only a dict has it; a missing key is a KeyError.\<close>

fun getitem_key :: "json \<Rightarrow> string \<Rightarrow> exn + json" where
  "getitem_key (JObj kvs) k = (case map_of kvs k of None \<Rightarrow> Inl (KeyError k) | Some v \<Rightarrow> Inr v)"
| "getitem_key _ k = Inl TypeError"

text \<open>\<open>xs[i]\<close> with a literal index \<open>i \<ge> 0\<close>. A dict parsed from JSON has string keys only.\<close>

fun getitem_idx :: "json \<Rightarrow> nat \<Rightarrow> exn + json" where
  "getitem_idx (JArr xs) i = (if i < length xs then Inr (xs ! i) else Inl IndexError)"
| "getitem_idx (JStr s) i = (if i < length s then Inr (JStr [s ! i]) else Inl IndexError)"
| "getitem_idx (JObj kvs) i = Inl (KeyError ''<int>'')"
| "getitem_idx _ i = Inl TypeError"

text \<open>\<open>d.get(k, default)\<close>: only a dict has the method.\<close>

fun dict_get :: "json \<Rightarrow> string \<Rightarrow> json \<Rightarrow> exn + json" where
  "dict_get (JObj kvs) k dflt = Inr (case map_of kvs k of None \<Rightarrow> dflt | Some v \<Rightarrow> v)"
| "dict_get _ k dflt = Inl AttributeError"

text \<open>\<open>for x in v\<close>: a list gives its elements, a string its characters, a dict its keys.\<close>

fun py_iter :: "json \<Rightarrow> exn + json list" where
  "py_iter (JArr xs) = Inr xs"
| "py_iter (JStr s) = Inr (map (\<lambda>c. JStr [c]) s)"
| "py_iter (JObj kvs) = Inr (map (\<lambda>kv. JStr (fst kv)) kvs)"
| "py_iter _ = Inl TypeError"

text \<open>A JSON value used as a number in arithmetic with a number: a JSON number is
  itself, a bool is 0 or 1, and every other value ends in a TypeError.\<close>

fun as_float :: "json \<Rightarrow> exn + real" where
  "as_float (JNum x) = Inr x"
| "as_float (JBool b) = Inr (if b then 1 else 0)"
| "as_float _ = Inl TypeError"

text \<open>\<open>resp.raise_for_status()\<close> raises for the status codes 400 to 599.\<close>

definition raise_for_status :: "nat \<Rightarrow> exn + unit" where
  "raise_for_status s = (if 400 \<le> s \<and> s < 600 then Inl (HTTPError s) else Inr ())"

definition resp_json :: "json option \<Rightarrow> exn + json" where
  "resp_json b = (case b of None \<Rightarrow> Inl JSONDecodeError | Some j \<Rightarrow> Inr j)"

text \<open>The request, then \<open>raise_for_status()\<close>, then \<open>.json()\<close>.\<close>

definition checked_json :: "http_reply \<Rightarrow> exn + json" where
  "checked_json r =
     (case r of
        Fails e \<Rightarrow> Inl e
      | Reply s b \<Rightarrow> bind_exn (raise_for_status s) (\<lambda>_. resp_json b))"

text \<open>The request and \<open>.json()\<close> with no status check.\<close>

definition unchecked_json :: "http_reply \<Rightarrow> exn + json" where
  "unchecked_json r = (case r of Fails e \<Rightarrow> Inl e | Reply s b \<Rightarrow> resp_json b)"

subsection \<open>Numbers\<close>

text \<open>\<open>int(x)\<close> on a float truncates towards zero.\<close>

definition py_int :: "real \<Rightarrow> int" where
  "py_int x = (if 0 \<le> x then \<lfloor>x\<rfloor> else \<lceil>x\<rceil>)"

text \<open>Rounding to the nearest integer, ties to even, as \<open>round\<close> and the \<open>f\<close> format do.\<close>

definition round_half_even :: "real \<Rightarrow> int" where
  "round_half_even y =
     (let f = \<lfloor>y\<rfloor>; d = y - of_int f
      in if d < 1/2 then f else if 1/2 < d then f + 1 else if even f then f else f + 1)"

text \<open>\<open>round(x, 2)\<close>.\<close>

definition py_round2 :: "real \<Rightarrow> real" where
  "py_round2 x = of_int (round_half_even (x * 100)) / 100"

definition digit_char :: "nat \<Rightarrow> char" where
  "digit_char d = ''0123456789'' ! d"

fun show_nat :: "nat \<Rightarrow> string" where
  "show_nat n = (if n < 10 then [digit_char n] else show_nat (n div 10) @ [digit_char (n mod 10)])"

declare show_nat.simps [simp del]

text \<open>The format \<open>f"{x:.kf}"\<close>: \<open>k\<close> digits after the point.\<close>

definition fmt_fixed :: "nat \<Rightarrow> real \<Rightarrow> string" where
  "fmt_fixed k x =
     (let t = nat (round_half_even (\<bar>x\<bar> * 10 ^ k));
          ds = show_nat t;
          padded = replicate (Suc k - length ds) CHR ''0'' @ ds;
          n = length padded - k
      in (if x < 0 then ''-'' else '''') @ take n padded @ (if k = 0 then '''' else ''.'' @ drop n padded))"

subsection \<open>The numpy generator\<close>

text \<open>
  \<open>np.random.default_rng(seed)\<close> builds a generator from a seed; each draw advances it.
  A draw with a size argument \<open>n\<close> is \<open>n\<close> draws in a row.
\<close>

record 'g numpy_rng =
  default_rng :: "int \<Rightarrow> 'g"
  gen_uniform :: "real \<Rightarrow> real \<Rightarrow> 'g \<Rightarrow> real \<times> 'g"
  gen_exponential :: "real \<Rightarrow> 'g \<Rightarrow> real \<times> 'g"
  gen_integers :: "int \<Rightarrow> int \<Rightarrow> 'g \<Rightarrow> int \<times> 'g"

fun draw_n :: "('g \<Rightarrow> 'a \<times> 'g) \<Rightarrow> nat \<Rightarrow> 'g \<Rightarrow> 'a list \<times> 'g" where
  "draw_n d 0 g = ([], g)"
| "draw_n d (Suc n) g =
     (let (x, g1) = d g; (xs, g2) = draw_n d n g1 in (x # xs, g2))"

text \<open>What numpy documents of the draws: \<open>uniform(low, high)\<close> lies between its bounds,
  \<open>exponential(scale)\<close> is not negative, \<open>integers(low, high)\<close> lies in \<open>[low, high)\<close>.\<close>

definition numpy_contract :: "'g numpy_rng \<Rightarrow> bool" where
  "numpy_contract N \<longleftrightarrow>
     (\<forall>lo hi g. lo \<le> hi \<longrightarrow> lo \<le> fst (gen_uniform N lo hi g) \<and> fst (gen_uniform N lo hi g) \<le> hi) \<and>
     (\<forall>s g. 0 \<le> s \<longrightarrow> 0 \<le> fst (gen_exponential N s g)) \<and>
     (\<forall>lo hi g. lo < hi \<longrightarrow> lo \<le> fst (gen_integers N lo hi g) \<and> fst (gen_integers N lo hi g) < hi)"

text \<open>A small linear congruential generator, a concrete instance to run the model on.\<close>

definition lcg_next :: "nat \<Rightarrow> nat" where
  "lcg_next g = (g * 75 + 74) mod 65537"

definition lcg_numpy :: "nat numpy_rng" where
  "lcg_numpy =
     \<lparr> default_rng = (\<lambda>seed. nat seed),
       gen_uniform = (\<lambda>lo hi g. (lo + (hi - lo) * (real (g mod 100) / 100), lcg_next g)),
       gen_exponential = (\<lambda>s g. (s * real (g mod 40) / 10, lcg_next g)),
       gen_integers = (\<lambda>lo hi g. (lo + int g mod (hi - lo), lcg_next g)) \<rparr>"

subsection \<open>location\_mode.py: the seeded scenario generator and Profile A\<close>

text \<open>The local \<open>seed\<close> of \<open>seeded_rng\<close>; \<open>ts\<close> is \<open>dt.timestamp()\<close>.\<close>

definition seeded_rng_seed :: "real \<Rightarrow> real \<Rightarrow> real \<Rightarrow> int" where
  "seeded_rng_seed lat lon ts = py_int (lat * 1000 + lon * 1000 + ts) mod 100000"

definition seeded_rng :: "'g numpy_rng \<Rightarrow> real \<Rightarrow> real \<Rightarrow> real \<Rightarrow> 'g" where
  "seeded_rng N lat lon ts = default_rng N (seeded_rng_seed lat lon ts)"

definition get_fixed_values ::
  "'g numpy_rng \<Rightarrow> real \<Rightarrow> real \<Rightarrow> real \<Rightarrow> real \<times> real \<times> real \<times> int" where
  "get_fixed_values N lat lon ts =
     (let rng = seeded_rng N lat lon ts;
          (cloud, rng1) = gen_uniform N 0 100 rng;
          (rain, rng2) = gen_exponential N 2 rng1;
          (tec, rng3) = gen_uniform N 20 80 rng2;
          (kp, rng4) = gen_integers N 0 10 rng3
      in (cloud, rain, tec, kp))"

text \<open>The data frame of \<open>simulate_points\<close>: six columns, built from six arrays.\<close>

record points_frame =
  lat_col :: "real list"
  lon_col :: "real list"
  cloud_col :: "real list"
  rain_col :: "real list"
  tec_col :: "real list"
  kp_col :: "int list"

definition simulate_points ::
  "'g numpy_rng \<Rightarrow> nat \<Rightarrow> real \<Rightarrow> real \<Rightarrow> real \<Rightarrow> points_frame" where
  "simulate_points N n lat lon ts =
     (let rng = seeded_rng N lat lon ts;
          (lats, rng1) = draw_n (gen_uniform N (lat - 5) (lat + 5)) n rng;
          (lons, rng2) = draw_n (gen_uniform N (lon - 5) (lon + 5)) n rng1;
          (clouds, rng3) = draw_n (gen_uniform N 0 100) n rng2;
          (rains, rng4) = draw_n (gen_exponential N 2) n rng3;
          (tecs, rng5) = draw_n (gen_uniform N 20 80) n rng4;
          (kps, rng6) = draw_n (gen_integers N 0 10) n rng5
      in \<lparr> lat_col = lats, lon_col = lons, cloud_col = clouds,
           rain_col = rains, tec_col = tecs, kp_col = kps \<rparr>)"

text \<open>One row of the frame, and the rows of a frame (row \<open>i\<close> holds entry \<open>i\<close> of each
  column).\<close>

record point_row =
  row_lat :: real
  row_lon :: real
  row_cloud :: real
  row_rain :: real
  row_tec :: real
  row_kp :: int

definition frame_rows :: "points_frame \<Rightarrow> point_row list" where
  "frame_rows f =
     map (\<lambda>(a, b, c, d, e, k).
            \<lparr> row_lat = a, row_lon = b, row_cloud = c, row_rain = d, row_tec = e, row_kp = k \<rparr>)
         (zip (lat_col f) (zip (lon_col f) (zip (cloud_col f)
            (zip (rain_col f) (zip (tec_col f) (kp_col f))))))"

definition predict_outage :: "real \<Rightarrow> real \<Rightarrow> real \<Rightarrow> int \<Rightarrow> bool" where
  "predict_outage cloud rain tec kp \<longleftrightarrow> cloud > 70 \<and> rain > 1 \<and> tec > 25 \<and> kp \<ge> 5"

subsection \<open>location\_mode.py: the adapters and one run of the page\<close>

text \<open>One record of the forecast frame. \<open>pd.to_datetime(e["dt"], unit="s")\<close> is read on
  a JSON number, as seconds since the epoch; what pandas makes of any other value is
  not modelled and taken as a TypeError.\<close>

record forecast_row =
  fc_time :: real
  fc_cloud :: json
  fc_rain :: json

fun to_datetime_s :: "json \<Rightarrow> exn + real" where
  "to_datetime_s (JNum x) = Inr x"
| "to_datetime_s _ = Inl TypeError"

definition forecast_rec :: "json \<Rightarrow> exn + forecast_row" where
  "forecast_rec e =
     bind_exn (getitem_key e ''dt'') (\<lambda>dt.
     bind_exn (to_datetime_s dt) (\<lambda>t.
     bind_exn (getitem_key e ''clouds'') (\<lambda>clouds.
     bind_exn (getitem_key clouds ''all'') (\<lambda>cloud.
     bind_exn (dict_get e ''rain'' (JObj [])) (\<lambda>rn.
     bind_exn (dict_get rn ''3h'' (JNum 0)) (\<lambda>rain.
       Inr \<lparr> fc_time = t, fc_cloud = cloud, fc_rain = rain \<rparr>))))))"

text \<open>\<open>fetch_openweather\<close>: \<open>api\<close> is the forecast provider, from the coordinates to the
  reply. No \<open>try\<close> surrounds the request, so every failure leaves the function as an
  exception. The ten-minute cache of the decorator is left out: it can only replace a
  request by an earlier result.\<close>

definition fetch_openweather ::
  "(real \<Rightarrow> real \<Rightarrow> http_reply) \<Rightarrow> real \<Rightarrow> real \<Rightarrow> exn + forecast_row list" where
  "fetch_openweather api lat lon =
     bind_exn (checked_json (api lat lon)) (\<lambda>body.
     bind_exn (getitem_key body ''list'') (\<lambda>l.
     bind_exn (py_iter l) (\<lambda>es. map_exn forecast_rec es)))"

fun has_key :: "json \<Rightarrow> string \<Rightarrow> bool" where
  "has_key (JObj kvs) k = (map_of kvs k \<noteq> None)"
| "has_key _ k = False"

text \<open>\<open>fetch_kp\<close>: the request and the status check are as in the source. The frame is
  read on a JSON array of records; \<open>df["time_tag"]\<close> needs the column, which exists when
  one record has the key. Other bodies are taken as the ValueError of the frame
  constructor.\<close>

definition fetch_kp :: "http_reply \<Rightarrow> exn + json list" where
  "fetch_kp reply =
     bind_exn (checked_json reply) (\<lambda>body.
       case body of
         JArr recs \<Rightarrow>
           if list_ex (\<lambda>r. has_key r ''time_tag'') recs then Inr recs
           else Inl (KeyError ''time_tag'')
       | _ \<Rightarrow> Inl (ValueError ''DataFrame''))"

text \<open>The Nominatim geocoder for one query: a location (latitude, longitude and the
  \<open>display_name\<close> of its raw record, if any), no result, or an exception.\<close>

datatype geo_reply = GeoFound real real "string option" | GeoNone | GeoRaises exn

text \<open>The loop \<open>for query in attempts\<close> of \<open>geocode_place\<close>: only GeocoderTimedOut and
  GeocoderUnavailable are caught.\<close>

fun geocode_attempts ::
  "(string \<Rightarrow> geo_reply) \<Rightarrow> string list \<Rightarrow> exn + (real \<times> real \<times> string) option" where
  "geocode_attempts geocoder [] = Inr None"
| "geocode_attempts geocoder (query # rest) =
     (case geocoder query of
        GeoFound la lo dn \<Rightarrow>
          Inr (Some (la, lo, takeWhile (\<lambda>c. c \<noteq> CHR '','') (case dn of None \<Rightarrow> [] | Some s \<Rightarrow> s)))
      | GeoNone \<Rightarrow> geocode_attempts geocoder rest
      | GeoRaises e \<Rightarrow>
          if e = GeocoderTimedOut \<or> e = GeocoderUnavailable then geocode_attempts geocoder rest
          else Inl e)"

definition geocode_place ::
  "(string \<Rightarrow> geo_reply) \<Rightarrow> string \<Rightarrow> exn + (real \<times> real \<times> string) option" where
  "geocode_place geocoder place = geocode_attempts geocoder [place, place @ '', India'']"

text \<open>The services the location page talks to. \<open>forest train labels xs\<close> stands for the
  random forest fitted on \<open>train\<close> with \<open>labels\<close> and then asked to predict \<open>xs\<close>.\<close>

record location_world =
  geocoder :: "string \<Rightarrow> geo_reply"
  forecast_api :: "real \<Rightarrow> real \<Rightarrow> http_reply"
  kp_api :: http_reply
  forest :: "points_frame \<Rightarrow> bool list \<Rightarrow> points_frame \<Rightarrow> bool list"

record prediction =
  p_lat :: real
  p_lon :: real
  p_place :: string
  p_dt :: real
  p_cloud :: real
  p_rain :: real
  p_tec :: real
  p_kp :: int
  p_outage :: bool
  p_sim :: points_frame
  p_out_ml :: "bool list"
  p_train_pred :: "bool list"

text \<open>\<open>st.session_state\<close>: a key that is absent is \<open>None\<close>.\<close>

record session =
  ss_trigger :: "bool option"
  ss_loc :: "(real \<times> real \<times> string) option"
  ss_weather_df :: "forecast_row list option"
  ss_kp_df :: "json list option"
  ss_prediction_done :: "bool option"
  ss_prediction :: "prediction option"

record location_ui =
  location_input :: string
  n_pts :: nat
  fetch_clicked :: bool
  time_choice :: nat
  predict_clicked :: bool

datatype location_screen = LocRaised exn | EnterLocation | SelectTime | PredictionShown prediction

text \<open>What one run leaves behind: the session state, the training set handed to
  \<open>model.fit\<close> (\<open>None\<close> when the run did not train) and the screen.\<close>

record location_run =
  run_session :: session
  run_fit :: "(points_frame \<times> bool list) option"
  run_screen :: location_screen

text \<open>The block under the button "Fetch Available Times". An assignment to the session
  state made before an exception stays.\<close>

definition fetch_phase :: "location_world \<Rightarrow> location_ui \<Rightarrow> session \<Rightarrow> session \<times> exn option" where
  "fetch_phase W ui s =
     (if location_input ui \<noteq> [] \<and> fetch_clicked ui then
        (case geocode_place (geocoder W) (location_input ui) of
           Inl e \<Rightarrow> (s, Some e)
         | Inr None \<Rightarrow> (s, None)
         | Inr (Some (lat, lon, place_name)) \<Rightarrow>
             (let s1 = s\<lparr>ss_loc := Some (lat, lon, place_name)\<rparr>
              in case fetch_openweather (forecast_api W) lat lon of
                   Inl e \<Rightarrow> (s1, Some e)
                 | Inr df \<Rightarrow>
                     (let s2 = s1\<lparr>ss_weather_df := Some df\<rparr>
                      in case fetch_kp (kp_api W) of
                           Inl e \<Rightarrow> (s2, Some e)
                         | Inr kp \<Rightarrow>
                             (s2\<lparr>ss_kp_df := Some kp, ss_prediction_done := Some False\<rparr>, None))))
      else (s, None))"

text \<open>The chosen time is printed to the minute and parsed again.\<close>

definition minute_floor :: "real \<Rightarrow> real" where
  "minute_floor t = 60 * of_int \<lfloor>t / 60\<rfloor>"

definition selected_dt :: "forecast_row list \<Rightarrow> nat \<Rightarrow> real" where
  "selected_dt rows choice =
     minute_floor (fc_time (if choice < length rows then rows ! choice else hd rows))"

text \<open>The block under the button "Predict GNSS Outage".\<close>

definition predict_phase ::
  "'g numpy_rng \<Rightarrow> location_world \<Rightarrow> location_ui \<Rightarrow> real \<Rightarrow> session
   \<Rightarrow> exn + session \<times> (points_frame \<times> bool list)" where
  "predict_phase N W ui dt_sel s =
     (case ss_loc s of
        None \<Rightarrow> Inl (KeyError ''loc'')
      | Some (lat, lon, place_name) \<Rightarrow>
          (let (cloud, rain, tec_now, kp_now) = get_fixed_values N lat lon dt_sel;
               outage = predict_outage cloud rain tec_now kp_now;
               train = simulate_points N 3000 lat lon dt_sel;
               labels = map (\<lambda>r. predict_outage (row_cloud r) (row_rain r) (row_tec r) (row_kp r))
                            (frame_rows train);
               sim = simulate_points N (n_pts ui) lat lon dt_sel;
               p = \<lparr> p_lat = lat, p_lon = lon, p_place = place_name, p_dt = dt_sel,
                     p_cloud = cloud, p_rain = rain, p_tec = tec_now, p_kp = kp_now,
                     p_outage = outage, p_sim = sim,
                     p_out_ml = forest W train labels sim,
                     p_train_pred = forest W train labels train \<rparr>
           in Inr (s\<lparr>ss_prediction := Some p, ss_prediction_done := Some True\<rparr>, (train, labels))))"

definition show_location_mode ::
  "'g numpy_rng \<Rightarrow> location_world \<Rightarrow> location_ui \<Rightarrow> session \<Rightarrow> location_run" where
  "show_location_mode N W ui s0 =
     (let s1 = (if ss_trigger s0 = None then s0\<lparr>ss_trigger := Some False\<rparr> else s0);
          (s2, err) = fetch_phase W ui s1
      in case err of
           Some e \<Rightarrow> \<lparr> run_session = s2, run_fit = None, run_screen = LocRaised e \<rparr>
         | None \<Rightarrow>
             (case ss_weather_df s2 of
                None \<Rightarrow> \<lparr> run_session = s2, run_fit = None, run_screen = EnterLocation \<rparr>
              | Some rows \<Rightarrow>
                  if rows = [] then
                    \<lparr> run_session = s2, run_fit = None, run_screen = LocRaised (KeyError ''time'') \<rparr>
                  else
                    (case (if predict_clicked ui
                           then map_sum id (\<lambda>(s, fit). (s, Some fit))
                                  (predict_phase N W ui (selected_dt rows (time_choice ui)) s2)
                           else Inr (s2, None)) of
                       Inl e \<Rightarrow> \<lparr> run_session = s2, run_fit = None, run_screen = LocRaised e \<rparr>
                     | Inr (s3, fit) \<Rightarrow>
                         if ss_prediction_done s3 \<noteq> Some True then
                           \<lparr> run_session = s3, run_fit = fit, run_screen = SelectTime \<rparr>
                         else
                           (case ss_prediction s3 of
                              None \<Rightarrow>
                                \<lparr> run_session = s3, run_fit = fit, run_screen = LocRaised AttributeError \<rparr>
                            | Some p \<Rightarrow>
                                \<lparr> run_session = s3, run_fit = fit, run_screen = PredictionShown p \<rparr>))))"

subsection \<open>route\_mode.py: geocoding, the per-vertex predictor and the route\<close>

text \<open>\<open>ORS_API_KEY\<close> is read from the environment: unset, or a string. \<open>not ORS_API_KEY\<close>
  holds for an unset and for an empty key.\<close>

definition key_missing :: "string option \<Rightarrow> bool" where
  "key_missing key \<longleftrightarrow> key = None \<or> key = Some []"

text \<open>\<open>ors_geocode\<close>: \<open>search\<close> is the provider, from the query text to the reply of the GET
  request. The bare \<open>except\<close> turns every exception into \<open>None\<close>.\<close>

definition ors_geocode ::
  "string option \<Rightarrow> (string \<Rightarrow> http_reply) \<Rightarrow> string \<Rightarrow> (json \<times> json \<times> json) option" where
  "ors_geocode key search place =
     (if key_missing key then None
      else case
        bind_exn (checked_json (search place)) (\<lambda>body.
        bind_exn (dict_get body ''features'' (JArr [])) (\<lambda>feats.
          if \<not> py_truthy feats then Inr None
          else
            bind_exn (getitem_idx feats 0) (\<lambda>f0.
            bind_exn (getitem_key f0 ''geometry'') (\<lambda>geometry.
            bind_exn (getitem_key geometry ''coordinates'') (\<lambda>coords.
            bind_exn (getitem_key f0 ''properties'') (\<lambda>props.
            bind_exn (getitem_key props ''label'') (\<lambda>label.
            bind_exn (getitem_idx coords 1) (\<lambda>c1.
            bind_exn (getitem_idx coords 0) (\<lambda>c0.
              Inr (Some (c1, c0, label)))))))))))
      of Inl e \<Rightarrow> None | Inr r \<Rightarrow> r)"

definition get_outage_prediction_seed :: "real \<Rightarrow> real \<Rightarrow> int \<Rightarrow> int" where
  "get_outage_prediction_seed lat lon i = py_int (lat * 10000 + lon * 10000 + of_int i) mod 100000"

text \<open>Profile B. \<open>and\<close> stops at the first false operand, so the later draws are only
  made when the earlier comparisons hold.\<close>

definition get_outage_prediction :: "'g numpy_rng \<Rightarrow> real \<Rightarrow> real \<Rightarrow> int \<Rightarrow> bool" where
  "get_outage_prediction N lat lon i =
     (let rng = default_rng N (get_outage_prediction_seed lat lon i);
          (cloud, rng1) = gen_uniform N 0 100 rng
      in if \<not> cloud > 70 then False
         else let (rain, rng2) = gen_exponential N 2 rng1
              in if \<not> rain > 1 then False
                 else let (tec, rng3) = gen_uniform N 20 80 rng2
                      in if \<not> tec > 25 then False
                         else let (kp, rng4) = gen_integers N 0 10 rng3 in kp \<ge> 5)"

text \<open>The tuple \<open>get_route\<close> returns: the route as (latitude, longitude) pairs, the two
  geocoding results (latitude, longitude, label) and the provider's summary.\<close>

record route_data =
  rd_route :: "(json \<times> json) list"
  rd_start :: "json \<times> json \<times> json"
  rd_end :: "json \<times> json \<times> json"
  rd_summary :: json

text \<open>\<open>get_route\<close>: \<open>directions\<close> is the provider, from the two (longitude, latitude) pairs
  of the POST body to the reply.\<close>

definition get_route ::
  "string option \<Rightarrow> (string \<Rightarrow> http_reply) \<Rightarrow> (json \<times> json \<Rightarrow> json \<times> json \<Rightarrow> http_reply)
   \<Rightarrow> string \<Rightarrow> string \<Rightarrow> exn + route_data" where
  "get_route key search directions start end =
     (let start_info = ors_geocode key search start;
          end_info = ors_geocode key search end
      in case (start_info, end_info) of
           (Some s, Some e) \<Rightarrow>
             bind_exn (checked_json (directions (fst (snd s), fst s) (fst (snd e), fst e))) (\<lambda>data.
             bind_exn (dict_get data ''features'' (JArr [])) (\<lambda>feats.
               if \<not> py_truthy feats then Inl (ValueError ''No route found'')
               else
                 bind_exn (getitem_idx feats 0) (\<lambda>f0.
                 bind_exn (getitem_key f0 ''geometry'') (\<lambda>geometry.
                 bind_exn (getitem_key geometry ''coordinates'') (\<lambda>geom.
                 bind_exn (py_iter geom) (\<lambda>pts.
                 bind_exn (map_exn (\<lambda>pt. bind_exn (getitem_idx pt 1) (\<lambda>a.
                                          bind_exn (getitem_idx pt 0) (\<lambda>b. Inr (a, b)))) pts) (\<lambda>route.
                 bind_exn (getitem_key f0 ''properties'') (\<lambda>props.
                 bind_exn (getitem_key props ''summary'') (\<lambda>summary.
                   Inr \<lparr> rd_route = route, rd_start = s, rd_end = e, rd_summary = summary \<rparr>)))))))))
         | _ \<Rightarrow> Inl (ValueError ''Geocoding failed for start or end''))"

datatype colour = Red | Green

text \<open>What the route page shows once a route is stored: the map (centre, one polyline
  for each drawn segment, two markers) and the four metrics.\<close>

record route_view =
  map_location :: "json \<times> json"
  polylines :: "((json \<times> json) \<times> (json \<times> json) \<times> colour) list"
  start_marker :: "(json \<times> json) \<times> json"
  end_marker :: "(json \<times> json) \<times> json"
  distance_km :: string
  duration_min :: string
  outage_segments :: int
  normal_segments :: int

text \<open>The call \<open>get_outage_prediction(pt[0], pt[1], i)\<close> on the values of the parsed
  polyline: \<open>lat * 10000 + lon * 10000 + i\<close> is a TypeError unless both are numbers.\<close>

definition outage_at :: "'g numpy_rng \<Rightarrow> json \<times> json \<Rightarrow> nat \<Rightarrow> exn + bool" where
  "outage_at N pt i =
     bind_exn (as_float (fst pt)) (\<lambda>lat.
     bind_exn (as_float (snd pt)) (\<lambda>lon.
       Inr (get_outage_prediction N lat lon (int i))))"

text \<open>The loop \<open>for i, pt in enumerate(route[1:], 1)\<close>; its state is \<open>outages\<close>, \<open>prev\<close>
  and the polylines added to the map so far.\<close>

fun route_loop ::
  "'g numpy_rng \<Rightarrow> nat \<Rightarrow> (json \<times> json) list
   \<Rightarrow> int \<times> (json \<times> json) \<times> ((json \<times> json) \<times> (json \<times> json) \<times> colour) list
   \<Rightarrow> exn + int \<times> (json \<times> json) \<times> ((json \<times> json) \<times> (json \<times> json) \<times> colour) list" where
  "route_loop N i [] st = Inr st"
| "route_loop N i (pt # pts) (outages, prev, lines) =
     bind_exn (outage_at N pt i) (\<lambda>out.
       route_loop N (Suc i) pts
         (if out then outages + 1 else outages, pt,
          lines @ [(prev, pt, if out then Red else Green)]))"

definition render_route :: "'g numpy_rng \<Rightarrow> route_data \<Rightarrow> exn + route_view" where
  "render_route N rd =
     (case rd_route rd of
        [] \<Rightarrow> Inl IndexError
      | p0 # rest \<Rightarrow>
          bind_exn (route_loop N 1 rest (0, p0, [])) (\<lambda>(outages, prev, lines).
          bind_exn (getitem_key (rd_summary rd) ''distance'') (\<lambda>d.
          bind_exn (as_float d) (\<lambda>dist.
          bind_exn (getitem_key (rd_summary rd) ''duration'') (\<lambda>u.
          bind_exn (as_float u) (\<lambda>dur.
            Inr \<lparr> map_location = p0,
                  polylines = lines,
                  start_marker = ((fst (rd_start rd), fst (snd (rd_start rd))), snd (snd (rd_start rd))),
                  end_marker = ((fst (rd_end rd), fst (snd (rd_end rd))), snd (snd (rd_end rd))),
                  distance_km = fmt_fixed 1 (dist / 1000),
                  duration_min = fmt_fixed 1 (dur / 60),
                  outage_segments = outages,
                  normal_segments = int (length (rd_route rd)) - outages \<rparr>))))))"

text \<open>One run of \<open>show_route_mode\<close>. The values of the two select boxes and the button
  are the inputs; \<open>st.session_state.route_data\<close> is the state that survives the run.\<close>

record route_ui =
  start_sel :: string
  end_sel :: string
  show_clicked :: bool

datatype sidebar_msg = SelectBoth | ErrorOf exn

datatype route_screen = KeyNotSet | Prompt | RouteShown route_view | RouteRaised exn

definition show_route_mode ::
  "'g numpy_rng \<Rightarrow> string option \<Rightarrow> (string \<Rightarrow> http_reply)
   \<Rightarrow> (json \<times> json \<Rightarrow> json \<times> json \<Rightarrow> http_reply)
   \<Rightarrow> route_ui \<Rightarrow> route_data option \<Rightarrow> route_data option \<times> sidebar_msg option \<times> route_screen" where
  "show_route_mode N key search directions ui st =
     (if key_missing key then (st, None, KeyNotSet)
      else
        let (st1, msg) =
              (if show_clicked ui then
                 (if start_sel ui = [] \<or> end_sel ui = [] then (st, Some SelectBoth)
                  else case get_route key search directions (start_sel ui) (end_sel ui) of
                         Inl e \<Rightarrow> (st, Some (ErrorOf e))
                       | Inr rd \<Rightarrow> (Some rd, None))
               else (st, None))
        in case st1 of
             None \<Rightarrow> (st1, msg, Prompt)
           | Some rd \<Rightarrow>
               (case render_route N rd of
                  Inl e \<Rightarrow> (st1, msg, RouteRaised e)
                | Inr v \<Rightarrow> (st1, msg, RouteShown v)))"

subsection \<open>route\_utils.py\<close>

text \<open>\<open>for lon, lat in coords\<close> unpacks each element into exactly two values.\<close>

definition unpack2 :: "json \<Rightarrow> exn + json \<times> json" where
  "unpack2 pt =
     bind_exn (py_iter pt) (\<lambda>xs.
       case xs of [a, b] \<Rightarrow> Inr (a, b) | _ \<Rightarrow> Inl (ValueError ''unpack''))"

text \<open>\<open>get_route_coords\<close>: every exception inside the \<open>try\<close> ends in the return value
  \<open>[], 0, 0\<close>.\<close>

definition get_route_coords ::
  "('c \<Rightarrow> 'c \<Rightarrow> http_reply) \<Rightarrow> 'c \<Rightarrow> 'c \<Rightarrow> (json \<times> json) list \<times> real \<times> real" where
  "get_route_coords directions start_coords end_coords =
     (case
        bind_exn (checked_json (directions start_coords end_coords)) (\<lambda>data.
        bind_exn (getitem_key data ''features'') (\<lambda>feats.
        bind_exn (getitem_idx feats 0) (\<lambda>f0.
        bind_exn (getitem_key f0 ''geometry'') (\<lambda>geometry.
        bind_exn (getitem_key geometry ''coordinates'') (\<lambda>coords.
        bind_exn (getitem_key f0 ''properties'') (\<lambda>props.
        bind_exn (getitem_key props ''summary'') (\<lambda>summary.
        bind_exn (getitem_key summary ''distance'') (\<lambda>d.
        bind_exn (as_float d) (\<lambda>dist.
        bind_exn (getitem_key summary ''duration'') (\<lambda>u.
        bind_exn (as_float u) (\<lambda>dur.
        bind_exn (py_iter coords) (\<lambda>pts.
        bind_exn (map_exn (\<lambda>pt. bind_exn (unpack2 pt) (\<lambda>(lon, lat). Inr (lat, lon))) pts)
          (\<lambda>route_points.
            Inr (route_points, py_round2 (dist / 1000), py_round2 (dur / 60)))))))))))))))
      of Inl e \<Rightarrow> ([], 0, 0) | Inr r \<Rightarrow> r)"

subsection \<open>gnss\_model.py: the route-overview helper\<close>

text \<open>The process-global generator of Python's \<open>random\<close> module. Nothing in the
  repository seeds it, so its state is an input of every function that draws from it.\<close>

record 'r py_random =
  rnd_uniform :: "real \<Rightarrow> real \<Rightarrow> 'r \<Rightarrow> real \<times> 'r"
  rnd_randint :: "int \<Rightarrow> int \<Rightarrow> 'r \<Rightarrow> int \<times> 'r"

text \<open>What the module documents: \<open>uniform(a, b)\<close> and \<open>randint(a, b)\<close> lie between their
  bounds, both included.\<close>

definition random_contract :: "'r py_random \<Rightarrow> bool" where
  "random_contract R \<longleftrightarrow>
     (\<forall>a b g. a \<le> b \<longrightarrow> a \<le> fst (rnd_uniform R a b g) \<and> fst (rnd_uniform R a b g) \<le> b) \<and>
     (\<forall>a b g. a \<le> b \<longrightarrow> a \<le> fst (rnd_randint R a b g) \<and> fst (rnd_randint R a b g) \<le> b)"

definition lcg_random :: "nat py_random" where
  "lcg_random =
     \<lparr> rnd_uniform = (\<lambda>a b g. (a + (b - a) * (real (g mod 1000) / 1000), lcg_next g)),
       rnd_randint = (\<lambda>a b g. (a + int g mod (b - a + 1), lcg_next g)) \<rparr>"

definition get_weather_data :: "'r py_random \<Rightarrow> http_reply \<Rightarrow> 'r \<Rightarrow> json \<times> 'r" where
  "get_weather_data R reply g =
     (case
        bind_exn (unchecked_json reply) (\<lambda>res.
        bind_exn (dict_get res ''clouds'' (JObj [])) (\<lambda>clouds.
          dict_get clouds ''all'' (JNum 0)))
      of Inr v \<Rightarrow> (v, g)
       | Inl e \<Rightarrow> (let (k, g1) = rnd_randint R 0 100 g in (JNum (of_int k), g1)))"

text \<open>The reverse geocoder: an address, no result, or an exception.\<close>

datatype rev_reply = RevFound string | RevNone | RevRaises exn

definition get_place_name :: "(real \<Rightarrow> real \<Rightarrow> rev_reply) \<Rightarrow> real \<Rightarrow> real \<Rightarrow> string" where
  "get_place_name reverse lat lon =
     (case reverse lat lon of
        RevFound address \<Rightarrow> address
      | _ \<Rightarrow> fmt_fixed 4 lat @ '', '' @ fmt_fixed 4 lon)"

text \<open>The slice \<open>route_points[::3]\<close>.\<close>

fun every_third :: "'a list \<Rightarrow> 'a list" where
  "every_third [] = []"
| "every_third (x # xs) = x # every_third (drop 2 xs)"

text \<open>\<open>cloud > c\<close> on the value the weather helper returned: a number or a bool compares,
  anything else is a TypeError.\<close>

fun json_gt :: "json \<Rightarrow> real \<Rightarrow> exn + bool" where
  "json_gt (JNum x) c = Inr (x > c)"
| "json_gt (JBool b) c = Inr ((if b then 1 else 0) > c)"
| "json_gt _ c = Inl TypeError"

record outage_result =
  r_lat :: real
  r_lon :: real
  r_place :: string
  r_cloud_cover :: json
  r_tec :: real
  r_geomagnetic :: int
  r_outage :: bool

text \<open>The loop body of \<open>predict_outage_along_route\<close> over the sampled points. The
  generator state is returned in every case: an exception does not undo the draws.\<close>

fun route_results ::
  "'r py_random \<Rightarrow> (real \<Rightarrow> real \<Rightarrow> http_reply) \<Rightarrow> (real \<Rightarrow> real \<Rightarrow> rev_reply)
   \<Rightarrow> (real \<times> real) list \<Rightarrow> 'r \<Rightarrow> (exn + outage_result list) \<times> 'r" where
  "route_results R weather reverse [] g = (Inr [], g)"
| "route_results R weather reverse ((lat, lon) # ps) g =
     (let (cloud, g1) = get_weather_data R (weather lat lon) g;
          (u, g2) = rnd_uniform R 1 35 g1;
          tec = py_round2 u;
          (kp, g3) = rnd_randint R 1 9 g2
      in case json_gt cloud 70 of
           Inl e \<Rightarrow> (Inl e, g3)
         | Inr c \<Rightarrow>
             (let outage = (c \<and> tec > 20 \<and> kp \<ge> 6);
                  res = \<lparr> r_lat = lat, r_lon = lon,
                          r_place = get_place_name reverse lat lon,
                          r_cloud_cover = cloud, r_tec = tec,
                          r_geomagnetic = kp, r_outage = outage \<rparr>
              in case route_results R weather reverse ps g3 of
                   (Inl e, g') \<Rightarrow> (Inl e, g')
                 | (Inr rs, g') \<Rightarrow> (Inr (res # rs), g')))"

definition predict_outage_along_route ::
  "'r py_random \<Rightarrow> (real \<Rightarrow> real \<Rightarrow> http_reply) \<Rightarrow> (real \<Rightarrow> real \<Rightarrow> rev_reply)
   \<Rightarrow> (real \<times> real) list \<Rightarrow> 'r \<Rightarrow> (exn + outage_result list) \<times> 'r" where
  "predict_outage_along_route R weather reverse route_points g =
     route_results R weather reverse (every_third route_points) g"

text \<open>What every record of the result holds: where its three features come from, and
  its flag.\<close>

definition sampled_ok ::
  "'r py_random \<Rightarrow> (real \<Rightarrow> real \<Rightarrow> http_reply) \<Rightarrow> outage_result \<Rightarrow> bool" where
  "sampled_ok R weather r \<longleftrightarrow>
     (\<exists>g0. r_cloud_cover r = fst (get_weather_data R (weather (r_lat r) (r_lon r)) g0) \<and>
           r_tec r = py_round2 (fst (rnd_uniform R 1 35
                       (snd (get_weather_data R (weather (r_lat r) (r_lon r)) g0)))) \<and>
           r_geomagnetic r = fst (rnd_randint R 1 9
                       (snd (rnd_uniform R 1 35
                          (snd (get_weather_data R (weather (r_lat r) (r_lon r)) g0))))))
     \<and> (r_outage r = (json_gt (r_cloud_cover r) 70 = Inr True \<and> 20 < r_tec r \<and> 6 \<le> r_geomagnetic r))"

subsection \<open>A concrete world to run the route page on\<close>

text \<open>A geocoder that resolves every query to one place, and a directions provider that
  answers with a polyline of three points and the summary distance 12000, duration 900.\<close>

definition demo_search :: "string \<Rightarrow> http_reply" where
  "demo_search q =
     Reply 200 (Some (JObj [(''features'', JArr [JObj
       [(''geometry'', JObj [(''coordinates'', JArr [JNum 77, JNum 12])]),
        (''properties'', JObj [(''label'', JStr q)])]])]))"

definition demo_directions :: "json \<times> json \<Rightarrow> json \<times> json \<Rightarrow> http_reply" where
  "demo_directions a b =
     Reply 200 (Some (JObj [(''features'', JArr [JObj
       [(''geometry'', JObj [(''coordinates'',
           JArr [JArr [JNum 77, JNum 12], JArr [JNum 77, JNum (120073 / 10000)],
                 JArr [JNum 77, JNum (1201 / 100)]])]),
        (''properties'', JObj [(''summary'',
           JObj [(''distance'', JNum 12000), (''duration'', JNum 900)])])]])]))"

text \<open>A directions provider that finds no route: the reply holds no feature.\<close>

definition no_route_directions :: "json \<times> json \<Rightarrow> json \<times> json \<Rightarrow> http_reply" where
  "no_route_directions a b = Reply 200 (Some (JObj [(''features'', JArr [])]))"

subsection \<open>Concrete worlds to run the location page on\<close>

definition empty_session :: session where
  "empty_session =
     \<lparr> ss_trigger = None, ss_loc = None, ss_weather_df = None, ss_kp_df = None,
       ss_prediction_done = None, ss_prediction = None \<rparr>"

text \<open>Every place is found, and the forecast and the Kp requests time out.\<close>

definition offline_world :: location_world where
  "offline_world =
     \<lparr> geocoder = (\<lambda>q. GeoFound 12 77 (Some ''Bengaluru, Karnataka, India'')),
       forecast_api = (\<lambda>lat lon. Fails Timeout),
       kp_api = Fails Timeout,
       forest = (\<lambda>train labels xs. map (\<lambda>r. False) (frame_rows xs)) \<rparr>"

text \<open>The first query finds nothing and the second one times out.\<close>

definition nowhere_world :: location_world where
  "nowhere_world =
     offline_world\<lparr>geocoder := (\<lambda>q. if q = ''Atlantis'' then GeoNone else GeoRaises GeocoderTimedOut)\<rparr>"

definition fetch_ui :: "string \<Rightarrow> location_ui" where
  "fetch_ui place =
     \<lparr> location_input = place, n_pts = 2000, fetch_clicked = True, time_choice = 0,
       predict_clicked = False \<rparr>"

text \<open>The reply of the weather provider to a bad API key: an error status with a JSON
  body that has no \<open>clouds\<close> entry.\<close>

definition unauthorized_reply :: http_reply where
  "unauthorized_reply =
     Reply 401 (Some (JObj [(''cod'', JNum 401), (''message'', JStr ''Invalid API key'')]))"

section \<open>Properties\<close>

text \<open>
  C2. For every feature vector, the Profile A rule of the location mode is true exactly
  when cloud exceeds 70, rain exceeds 1, TEC exceeds 25 and Kp is at least 5: the Kp
  comparison is inclusive and the other three are strict, so a vector that breaks one of
  the four conditions is labelled false.
\<close>

theorem predict_outage_profile_A:
  "predict_outage cloud rain tec kp = (70 < cloud \<and> 1 < rain \<and> 25 < tec \<and> 5 \<le> kp)
   \<and> predict_outage 70 rain tec kp = False
   \<and> predict_outage cloud 1 tec kp = False
   \<and> predict_outage cloud rain 25 kp = False
   \<and> predict_outage cloud rain tec 4 = False
   \<and> predict_outage cloud rain tec 5 = (70 < cloud \<and> 1 < rain \<and> 25 < tec)"
  by (simp add: predict_outage_def)

lemma length_draw_n: "length (fst (draw_n d n g)) = n"
  by (induction n arbitrary: g) (simp_all add: split_beta Let_def)

lemma draw_n_all:
  assumes "\<And>g. P (fst (d g))"
  shows "\<forall>x \<in> set (fst (draw_n d n g)). P x"
  using assms by (induction n arbitrary: g) (simp_all add: split_beta Let_def)

lemma simulate_points_lengths:
  "length (lat_col (simulate_points N n lat lon ts)) = n"
  "length (lon_col (simulate_points N n lat lon ts)) = n"
  "length (cloud_col (simulate_points N n lat lon ts)) = n"
  "length (rain_col (simulate_points N n lat lon ts)) = n"
  "length (tec_col (simulate_points N n lat lon ts)) = n"
  "length (kp_col (simulate_points N n lat lon ts)) = n"
  by (simp_all add: simulate_points_def Let_def split_beta length_draw_n)

lemma length_frame_rows:
  "length (frame_rows f) =
     min (length (lat_col f)) (min (length (lon_col f)) (min (length (cloud_col f))
       (min (length (rain_col f)) (min (length (tec_col f)) (length (kp_col f))))))"
  by (simp add: frame_rows_def)

lemma frame_rows_mem:
  assumes "r \<in> set (frame_rows f)"
  shows "row_lat r \<in> set (lat_col f) \<and> row_lon r \<in> set (lon_col f) \<and>
         row_cloud r \<in> set (cloud_col f) \<and> row_rain r \<in> set (rain_col f) \<and>
         row_tec r \<in> set (tec_col f) \<and> row_kp r \<in> set (kp_col f)"
proof -
  from assms obtain a b c d e k where
    r: "r = \<lparr> row_lat = a, row_lon = b, row_cloud = c, row_rain = d, row_tec = e, row_kp = k \<rparr>"
    and z: "(a, b, c, d, e, k) \<in> set (zip (lat_col f) (zip (lon_col f) (zip (cloud_col f)
            (zip (rain_col f) (zip (tec_col f) (kp_col f))))))"
    by (auto simp: frame_rows_def)
  from z have "a \<in> set (lat_col f)" by (rule set_zip_leftD)
  moreover from z have z1: "(b, c, d, e, k) \<in> set (zip (lon_col f) (zip (cloud_col f)
            (zip (rain_col f) (zip (tec_col f) (kp_col f)))))" by (rule set_zip_rightD)
  then have "b \<in> set (lon_col f)" by (rule set_zip_leftD)
  moreover from z1 have z2: "(c, d, e, k) \<in> set (zip (cloud_col f)
            (zip (rain_col f) (zip (tec_col f) (kp_col f))))" by (rule set_zip_rightD)
  then have "c \<in> set (cloud_col f)" by (rule set_zip_leftD)
  moreover from z2 have z3: "(d, e, k) \<in> set (zip (rain_col f) (zip (tec_col f) (kp_col f)))"
    by (rule set_zip_rightD)
  then have "d \<in> set (rain_col f)" by (rule set_zip_leftD)
  moreover from z3 have z4: "(e, k) \<in> set (zip (tec_col f) (kp_col f))" by (rule set_zip_rightD)
  then have "e \<in> set (tec_col f)" "k \<in> set (kp_col f)"
    by (auto dest: set_zip_leftD set_zip_rightD)
  ultimately show ?thesis by (simp add: r)
qed

lemma uniform_col_bounds:
  assumes "numpy_contract N" "lo \<le> hi"
  shows "\<forall>x \<in> set (fst (draw_n (gen_uniform N lo hi) n g)). lo \<le> x \<and> x \<le> hi"
  using assms by (intro draw_n_all) (simp add: numpy_contract_def)

lemma exponential_col_bounds:
  assumes "numpy_contract N" "0 \<le> s"
  shows "\<forall>x \<in> set (fst (draw_n (gen_exponential N s) n g)). 0 \<le> x"
  using assms by (intro draw_n_all) (simp add: numpy_contract_def)

lemma integers_col_bounds:
  assumes "numpy_contract N" "lo < hi"
  shows "\<forall>x \<in> set (fst (draw_n (gen_integers N lo hi) n g)). lo \<le> x \<and> x < hi"
  using assms by (intro draw_n_all) (simp add: numpy_contract_def)

lemma lat_col_range:
  assumes c: "numpy_contract N"
  shows "\<forall>x \<in> set (lat_col (simulate_points N n lat lon ts)). lat - 5 \<le> x \<and> x \<le> lat + 5"
proof -
  have "lat - 5 \<le> lat + 5" by simp
  from uniform_col_bounds[OF c this] show ?thesis
    by (simp add: simulate_points_def Let_def split_beta)
qed

lemma lon_col_range:
  assumes c: "numpy_contract N"
  shows "\<forall>x \<in> set (lon_col (simulate_points N n lat lon ts)). lon - 5 \<le> x \<and> x \<le> lon + 5"
proof -
  have "lon - 5 \<le> lon + 5" by simp
  from uniform_col_bounds[OF c this] show ?thesis
    by (simp add: simulate_points_def Let_def split_beta)
qed

lemma cloud_col_range:
  assumes c: "numpy_contract N"
  shows "\<forall>x \<in> set (cloud_col (simulate_points N n lat lon ts)). 0 \<le> x \<and> x \<le> 100"
proof -
  have "(0::real) \<le> 100" by simp
  from uniform_col_bounds[OF c this] show ?thesis
    by (simp add: simulate_points_def Let_def split_beta)
qed

lemma rain_col_range:
  assumes c: "numpy_contract N"
  shows "\<forall>x \<in> set (rain_col (simulate_points N n lat lon ts)). 0 \<le> x"
proof -
  have "(0::real) \<le> 2" by simp
  from exponential_col_bounds[OF c this] show ?thesis
    by (simp add: simulate_points_def Let_def split_beta)
qed

lemma tec_col_range:
  assumes c: "numpy_contract N"
  shows "\<forall>x \<in> set (tec_col (simulate_points N n lat lon ts)). 20 \<le> x \<and> x \<le> 80"
proof -
  have "(20::real) \<le> 80" by simp
  from uniform_col_bounds[OF c this] show ?thesis
    by (simp add: simulate_points_def Let_def split_beta)
qed

lemma kp_col_range:
  assumes c: "numpy_contract N"
  shows "\<forall>x \<in> set (kp_col (simulate_points N n lat lon ts)). 0 \<le> x \<and> x < 10"
proof -
  have "(0::int) < 10" by simp
  from integers_col_bounds[OF c this] show ?thesis
    by (simp add: simulate_points_def Let_def split_beta)
qed

lemma lcg_fraction_bounds:
  fixes lo hi q :: real
  assumes "lo \<le> hi" "0 \<le> q" "q \<le> 1"
  shows "lo \<le> lo + (hi - lo) * q \<and> lo + (hi - lo) * q \<le> hi"
proof -
  have "0 \<le> (hi - lo) * q" using assms by simp
  moreover have "(hi - lo) * q \<le> (hi - lo) * 1"
    using assms by (intro mult_left_mono) simp_all
  ultimately show ?thesis by simp
qed

lemma lcg_numpy_contract: "numpy_contract lcg_numpy"
proof -
  have u: "lo \<le> lo + (hi - lo) * (real (g mod 100) / 100) \<and>
           lo + (hi - lo) * (real (g mod 100) / 100) \<le> hi"
    if "lo \<le> hi" for lo hi :: real and g :: nat
    using that by (intro lcg_fraction_bounds) simp_all
  have e: "0 \<le> s * real (g mod 40) / 10" if "0 \<le> s" for s :: real and g :: nat
    using that by simp
  have i: "lo \<le> lo + int g mod (hi - lo) \<and> lo + int g mod (hi - lo) < hi"
    if "lo < hi" for lo hi :: int and g :: nat
  proof -
    from that have p: "0 < hi - lo" by simp
    have "0 \<le> int g mod (hi - lo)" using p by (rule pos_mod_sign)
    moreover have "int g mod (hi - lo) < hi - lo" using p by (rule pos_mod_bound)
    ultimately show ?thesis by linarith
  qed
  show ?thesis
    unfolding numpy_contract_def lcg_numpy_def
    using u e i by simp
qed

text \<open>
  C3. For every requested population size \<open>n\<close> and centre (latitude, longitude, time),
  \<open>simulate_points\<close> yields exactly \<open>n\<close> rows: each of the six columns has \<open>n\<close> entries,
  and in every row cloud lies in [0, 100], Kp is an integer in [0, 9], rain is not
  negative, TEC lies in [20, 80] and latitude and longitude are within 5 degrees of the
  centre. The ranges are those numpy documents for its draws.
\<close>

theorem simulate_points_rows:
  assumes "numpy_contract N"
  shows "length (frame_rows (simulate_points N n lat lon ts)) = n
       \<and> (\<forall>r \<in> set (frame_rows (simulate_points N n lat lon ts)).
            0 \<le> row_cloud r \<and> row_cloud r \<le> 100 \<and>
            0 \<le> row_kp r \<and> row_kp r \<le> 9 \<and>
            0 \<le> row_rain r \<and>
            20 \<le> row_tec r \<and> row_tec r \<le> 80 \<and>
            \<bar>row_lat r - lat\<bar> \<le> 5 \<and> \<bar>row_lon r - lon\<bar> \<le> 5)"
proof (intro conjI ballI)
  show "length (frame_rows (simulate_points N n lat lon ts)) = n"
    by (simp add: length_frame_rows simulate_points_lengths)
next
  fix r assume r: "r \<in> set (frame_rows (simulate_points N n lat lon ts))"
  note m = frame_rows_mem[OF r]
    from m cloud_col_range[OF assms, of n lat lon ts] show "0 \<le> row_cloud r" "row_cloud r \<le> 100" by blast+
  from m kp_col_range[OF assms, of n lat lon ts] have "0 \<le> row_kp r \<and> row_kp r < 10" by blast
  then show "0 \<le> row_kp r" "row_kp r \<le> 9" by simp_all
  from m rain_col_range[OF assms, of n lat lon ts] show "0 \<le> row_rain r" by blast
  from m tec_col_range[OF assms, of n lat lon ts] show "20 \<le> row_tec r" "row_tec r \<le> 80" by blast+
  from m lat_col_range[OF assms, of n lat lon ts] have "lat - 5 \<le> row_lat r \<and> row_lat r \<le> lat + 5" by blast
  then show "\<bar>row_lat r - lat\<bar> \<le> 5" by linarith
  from m lon_col_range[OF assms, of n lat lon ts] have "lon - 5 \<le> row_lon r \<and> row_lon r \<le> lon + 5" by blast
  then show "\<bar>row_lon r - lon\<bar> \<le> 5" by linarith
qed

theorem simulate_points_rows_witness:
  "numpy_contract lcg_numpy
   \<and> length (frame_rows (simulate_points lcg_numpy 3 12 77 1700000000)) = 3
   \<and> 0 \<le> row_cloud (hd (frame_rows (simulate_points lcg_numpy 3 12 77 1700000000)))
   \<and> row_cloud (hd (frame_rows (simulate_points lcg_numpy 3 12 77 1700000000))) \<le> 100
   \<and> 0 \<le> row_kp (hd (frame_rows (simulate_points lcg_numpy 3 12 77 1700000000)))
   \<and> row_kp (hd (frame_rows (simulate_points lcg_numpy 3 12 77 1700000000))) \<le> 9"
proof -
  note t = simulate_points_rows [OF lcg_numpy_contract, of 3 12 77 1700000000]
  from t have "length (frame_rows (simulate_points lcg_numpy 3 12 77 1700000000)) = 3"
    by blast
  then have "frame_rows (simulate_points lcg_numpy 3 12 77 1700000000) \<noteq> []"
    by auto
  then have "hd (frame_rows (simulate_points lcg_numpy 3 12 77 1700000000))
               \<in> set (frame_rows (simulate_points lcg_numpy 3 12 77 1700000000))"
    by simp
  with t show ?thesis using lcg_numpy_contract by blast
qed

text \<open>
  C1. The seed of the scenario generator is \<open>int(lat*1000 + lon*1000 + timestamp) mod 100000\<close>,
  a number from 0 to 99999, and the generator, the feature draws and the simulated
  population are functions of the inputs alone: the single draws depend on the inputs
  only through the seed, and identical (latitude, longitude, time, size) give the
  identical seed, draws and population. In the same way the label of the route
  predictor depends on (latitude, longitude, index) only through its seed, so identical
  inputs give the identical label.
\<close>

theorem seeded_generator_reproducible:
  "seeded_rng_seed lat lon ts = py_int (lat * 1000 + lon * 1000 + ts) mod 100000
   \<and> 0 \<le> seeded_rng_seed lat lon ts \<and> seeded_rng_seed lat lon ts < 100000
   \<and> (seeded_rng_seed lat' lon' ts' = seeded_rng_seed lat lon ts \<longrightarrow>
        seeded_rng N lat' lon' ts' = seeded_rng N lat lon ts \<and>
        get_fixed_values N lat' lon' ts' = get_fixed_values N lat lon ts)
   \<and> (lat' = lat \<and> lon' = lon \<and> ts' = ts \<and> n' = n \<longrightarrow>
        seeded_rng_seed lat' lon' ts' = seeded_rng_seed lat lon ts \<and>
        get_fixed_values N lat' lon' ts' = get_fixed_values N lat lon ts \<and>
        simulate_points N n' lat' lon' ts' = simulate_points N n lat lon ts)
   \<and> (get_outage_prediction_seed lat' lon' i' = get_outage_prediction_seed lat lon i \<longrightarrow>
        get_outage_prediction N lat' lon' i' = get_outage_prediction N lat lon i)
   \<and> (lat' = lat \<and> lon' = lon \<and> i' = i \<longrightarrow>
        get_outage_prediction N lat' lon' i' = get_outage_prediction N lat lon i)"
proof (intro conjI impI)
  show "seeded_rng_seed lat lon ts = py_int (lat * 1000 + lon * 1000 + ts) mod 100000"
    by (simp add: seeded_rng_seed_def)
  show "0 \<le> seeded_rng_seed lat lon ts" by (simp add: seeded_rng_seed_def)
  show "seeded_rng_seed lat lon ts < 100000" by (simp add: seeded_rng_seed_def)
next
  assume "seeded_rng_seed lat' lon' ts' = seeded_rng_seed lat lon ts"
  then show r: "seeded_rng N lat' lon' ts' = seeded_rng N lat lon ts"
    by (simp add: seeded_rng_def)
  then show "get_fixed_values N lat' lon' ts' = get_fixed_values N lat lon ts"
    by (simp add: get_fixed_values_def)
next
  assume "lat' = lat \<and> lon' = lon \<and> ts' = ts \<and> n' = n"
  then show "seeded_rng_seed lat' lon' ts' = seeded_rng_seed lat lon ts"
    "get_fixed_values N lat' lon' ts' = get_fixed_values N lat lon ts"
    "simulate_points N n' lat' lon' ts' = simulate_points N n lat lon ts"
    by simp_all
next
  assume "get_outage_prediction_seed lat' lon' i' = get_outage_prediction_seed lat lon i"
  then show "get_outage_prediction N lat' lon' i' = get_outage_prediction N lat lon i"
    by (simp add: get_outage_prediction_def)
next
  assume "lat' = lat \<and> lon' = lon \<and> i' = i"
  then show "get_outage_prediction N lat' lon' i' = get_outage_prediction N lat lon i" by simp
qed

theorem seeded_generator_reproducible_witness:
  "seeded_rng_seed 13 76 1700000000 = seeded_rng_seed 12 77 1700000000
   \<and> seeded_rng_seed 12 77 1700000000 = 89000
   \<and> get_fixed_values lcg_numpy 13 76 1700000000 = get_fixed_values lcg_numpy 12 77 1700000000
   \<and> simulate_points lcg_numpy 3 12 77 1700000000 = simulate_points lcg_numpy 3 12 77 1700000000
   \<and> get_outage_prediction_seed (5/2) (7/2) 1 = get_outage_prediction_seed 3 3 1
   \<and> get_outage_prediction lcg_numpy (5/2) (7/2) 1 = get_outage_prediction lcg_numpy 3 3 1"
  using seeded_generator_reproducible [where lat = 12 and lon = 77 and ts = 1700000000 and lat' = 12 and lon' = 77
      and ts' = 1700000000 and n = 3 and n' = 3 and i = 1 and i' = 1 and N = lcg_numpy]
    seeded_generator_reproducible [where lat = 12 and lon = 77 and ts = 1700000000 and lat' = 13
      and lon' = 76 and ts' = 1700000000 and N = lcg_numpy]
    seeded_generator_reproducible [where lat = 3 and lon = 3 and i = 1 and lat' = "5/2"
      and lon' = "7/2" and i' = 1 and N = lcg_numpy]
  by (simp add: seeded_rng_seed_def get_outage_prediction_seed_def py_int_def)

lemma fmt_fixed_examples:
  "fmt_fixed (Suc 0) 12 = ''12.0''" "fmt_fixed (Suc 0) 15 = ''15.0''"
  by (simp_all add: fmt_fixed_def round_half_even_def show_nat.simps digit_char_def Let_def)

lemma route_loop_inv:
  "route_loop N i pts (outages, prev, lines) = Inr (outages', prev', lines') \<Longrightarrow>
     \<exists>new. lines' = lines @ new \<and> length new = length pts \<and>
           outages' = outages + int (length (filter (\<lambda>l. snd (snd l) = Red) new))"
proof (induction pts arbitrary: i outages prev lines)
  case Nil
  then show ?case by simp
next
  case (Cons pt pts)
  from Cons.prems obtain out where
    o: "outage_at N pt i = Inr out"
    and r: "route_loop N (Suc i) pts
              (if out then outages + 1 else outages, pt,
               lines @ [(prev, pt, if out then Red else Green)]) = Inr (outages', prev', lines')"
    by (auto simp: bind_exn_def split: sum.splits)
  from Cons.IH[OF r] obtain new where
    n: "lines' = (lines @ [(prev, pt, if out then Red else Green)]) @ new"
       "length new = length pts"
       "outages' = (if out then outages + 1 else outages)
                    + int (length (filter (\<lambda>l. snd (snd l) = Red) new))"
    by blast
  show ?case
  proof (intro exI conjI)
    show "lines' = lines @ ((prev, pt, if out then Red else Green) # new)" using n(1) by simp
    show "length ((prev, pt, if out then Red else Green) # new) = length (pt # pts)"
      using n(2) by simp
    show "outages' = outages + int (length (filter (\<lambda>l. snd (snd l) = Red)
            ((prev, pt, if out then Red else Green) # new)))"
      using n(3) by simp
  qed
qed

lemma red_green_count:
  "length (filter (\<lambda>l. snd (snd l) = Red) ls) + length (filter (\<lambda>l. snd (snd l) = Green) ls)
     = length (ls :: ('a \<times> 'b \<times> colour) list)"
proof -
  have "(\<lambda>l :: 'a \<times> 'b \<times> colour. snd (snd l) = Green) = (\<lambda>l. \<not> snd (snd l) = Red)"
    by (rule ext) (metis colour.exhaust colour.distinct(1))
  then show ?thesis by (simp add: sum_length_filter_compl)
qed

lemma render_route_counts:
  assumes "render_route N rd = Inr v"
  shows "length (polylines v) + 1 = length (rd_route rd)
       \<and> outage_segments v = int (length (filter (\<lambda>l. snd (snd l) = Red) (polylines v)))
       \<and> normal_segments v = int (length (rd_route rd)) - outage_segments v"
proof -
  from assms obtain p0 rest where rt: "rd_route rd = p0 # rest"
    by (cases "rd_route rd") (simp_all add: render_route_def)
  from assms rt obtain outages prev lines where
    l: "route_loop N 1 rest (0, p0, []) = Inr (outages, prev, lines)"
    and v: "polylines v = lines" "outage_segments v = outages"
           "normal_segments v = int (length (rd_route rd)) - outages"
    by (auto simp: render_route_def bind_exn_def split: sum.splits prod.splits)
  from route_loop_inv[OF l] obtain new where
    "lines = [] @ new" "length new = length rest"
    "outages = 0 + int (length (filter (\<lambda>l. snd (snd l) = Red) new))" by blast
  with v rt show ?thesis by simp
qed

lemma show_route_mode_shown:
  assumes "show_route_mode N key search directions ui st = (st', msg, RouteShown v)"
  shows "\<exists>rd. st' = Some rd \<and> render_route N rd = Inr v"
  using assms
  by (auto simp: show_route_mode_def Let_def split: if_splits sum.splits option.splits prod.splits)

lemma get_route_three_points:
  assumes gs: "ors_geocode key search start = Some s_info"
    and ge: "ors_geocode key search end = Some e_info"
    and ok: "\<not> (400 \<le> status \<and> status < 600)"
    and reply: "directions (fst (snd s_info), fst s_info) (fst (snd e_info), fst e_info) =
       Reply status (Some (JObj [(''features'', JArr [JObj
         [(''geometry'', JObj [(''coordinates'',
             JArr [JArr [JNum x0, JNum y0], JArr [JNum x1, JNum y1], JArr [JNum x2, JNum y2]])]),
          (''properties'', JObj [(''summary'',
             JObj [(''distance'', JNum 12000), (''duration'', JNum 900)])])]])]))"
  shows "get_route key search directions start end =
           Inr \<lparr> rd_route = [(JNum y0, JNum x0), (JNum y1, JNum x1), (JNum y2, JNum x2)],
                 rd_start = s_info, rd_end = e_info,
                 rd_summary = JObj [(''distance'', JNum 12000), (''duration'', JNum 900)] \<rparr>"
  using ok
  by (simp add: get_route_def gs ge reply Let_def bind_exn_def checked_json_def
        raise_for_status_def resp_json_def)

lemma render_route_three_points:
  "render_route N
     \<lparr> rd_route = [(JNum y0, JNum x0), (JNum y1, JNum x1), (JNum y2, JNum x2)],
       rd_start = s_info, rd_end = e_info,
       rd_summary = JObj [(''distance'', JNum 12000), (''duration'', JNum 900)] \<rparr> =
   Inr \<lparr> map_location = (JNum y0, JNum x0),
         polylines =
           [((JNum y0, JNum x0), (JNum y1, JNum x1),
               if get_outage_prediction N y1 x1 1 then Red else Green),
            ((JNum y1, JNum x1), (JNum y2, JNum x2),
               if get_outage_prediction N y2 x2 2 then Red else Green)],
         start_marker = ((fst s_info, fst (snd s_info)), snd (snd s_info)),
         end_marker = ((fst e_info, fst (snd e_info)), snd (snd e_info)),
         distance_km = ''12.0'',
         duration_min = ''15.0'',
         outage_segments =
           (if get_outage_prediction N y1 x1 1 then 1 else 0) +
           (if get_outage_prediction N y2 x2 2 then 1 else 0),
         normal_segments =
           3 - ((if get_outage_prediction N y1 x1 1 then 1 else 0) +
                (if get_outage_prediction N y2 x2 2 then 1 else 0)) \<rparr>"
  by (simp add: render_route_def outage_at_def bind_exn_def fmt_fixed_examples)

text \<open>
  C4. When both endpoints resolve via geocoding and the directions provider answers with
  a polyline of three points and the summary distance 12000, duration 900, the route
  page shows "Distance (km)" 12.0 and "Duration (min)" 15.0 and draws exactly two
  labelled segments: one for each vertex after the first, labelled by the per-vertex
  predictor on that vertex's own latitude and longitude and its position 1 or 2.
\<close>

theorem route_pipeline_three_points:
  assumes key: "\<not> key_missing key"
    and sel: "start \<noteq> []" "end \<noteq> []"
    and gs: "ors_geocode key search start = Some s_info"
    and ge: "ors_geocode key search end = Some e_info"
    and ok: "\<not> (400 \<le> status \<and> status < 600)"
    and reply: "directions (fst (snd s_info), fst s_info) (fst (snd e_info), fst e_info) =
       Reply status (Some (JObj [(''features'', JArr [JObj
         [(''geometry'', JObj [(''coordinates'',
             JArr [JArr [JNum x0, JNum y0], JArr [JNum x1, JNum y1], JArr [JNum x2, JNum y2]])]),
          (''properties'', JObj [(''summary'',
             JObj [(''distance'', JNum 12000), (''duration'', JNum 900)])])]])]))"
  shows "\<exists>rd v.
           show_route_mode N key search directions
             \<lparr> start_sel = start, end_sel = end, show_clicked = True \<rparr> st
             = (Some rd, None, RouteShown v)
         \<and> rd_route rd = [(JNum y0, JNum x0), (JNum y1, JNum x1), (JNum y2, JNum x2)]
         \<and> distance_km v = ''12.0''
         \<and> duration_min v = ''15.0''
         \<and> length (polylines v) = 2
         \<and> polylines v =
             [((JNum y0, JNum x0), (JNum y1, JNum x1),
                 if get_outage_prediction N y1 x1 1 then Red else Green),
              ((JNum y1, JNum x1), (JNum y2, JNum x2),
                 if get_outage_prediction N y2 x2 2 then Red else Green)]"
proof -
  have "get_route key search directions start end =
           Inr \<lparr> rd_route = [(JNum y0, JNum x0), (JNum y1, JNum x1), (JNum y2, JNum x2)],
                 rd_start = s_info, rd_end = e_info,
                 rd_summary = JObj [(''distance'', JNum 12000), (''duration'', JNum 900)] \<rparr>"
    using gs ge ok reply by (rule get_route_three_points)
  then show ?thesis
    using key sel by (simp add: show_route_mode_def render_route_three_points)
qed



lemma demo_geocode:
  "ors_geocode (Some ''k'') demo_search q = Some (JNum 12, JNum 77, JStr q)"
  by (simp add: ors_geocode_def key_missing_def demo_search_def bind_exn_def checked_json_def
        raise_for_status_def resp_json_def)

theorem route_pipeline_three_points_witness:
  "\<not> key_missing (Some ''k'')
   \<and> ors_geocode (Some ''k'') demo_search ''A'' = Some (JNum 12, JNum 77, JStr ''A'')
   \<and> ors_geocode (Some ''k'') demo_search ''B'' = Some (JNum 12, JNum 77, JStr ''B'')
   \<and> (\<exists>rd v.
          show_route_mode lcg_numpy (Some ''k'') demo_search demo_directions
            \<lparr> start_sel = ''A'', end_sel = ''B'', show_clicked = True \<rparr> None
            = (Some rd, None, RouteShown v)
        \<and> distance_km v = ''12.0'' \<and> duration_min v = ''15.0''
        \<and> length (polylines v) = 2)"
proof -
  have k: "\<not> key_missing (Some ''k'')" by (simp add: key_missing_def)
  have a: "''A'' \<noteq> []" and b: "''B'' \<noteq> []" by simp_all
  have ok: "\<not> (400 \<le> (200::nat) \<and> (200::nat) < 600)" by simp
  have r: "demo_directions (fst (snd (JNum 12, JNum 77, JStr ''A'')), fst (JNum 12, JNum 77, JStr ''A''))
             (fst (snd (JNum 12, JNum 77, JStr ''B'')), fst (JNum 12, JNum 77, JStr ''B'')) =
       Reply 200 (Some (JObj [(''features'', JArr [JObj
         [(''geometry'', JObj [(''coordinates'',
             JArr [JArr [JNum 77, JNum 12], JArr [JNum 77, JNum (120073 / 10000)],
                   JArr [JNum 77, JNum (1201 / 100)]])]),
          (''properties'', JObj [(''summary'',
             JObj [(''distance'', JNum 12000), (''duration'', JNum 900)])])]])]))"
    by (simp add: demo_directions_def)
  from route_pipeline_three_points [where N = lcg_numpy and st = None
      and directions = demo_directions and key = "Some ''k''" and search = demo_search
      and s_info = "(JNum 12, JNum 77, JStr ''A'')" and e_info = "(JNum 12, JNum 77, JStr ''B'')",
      OF k a b demo_geocode demo_geocode ok r]
  show ?thesis using k demo_geocode by blast
qed

text \<open>
  C9. Whenever the route page shows a route with \<open>V\<close> vertices, the two segment metrics
  add up to \<open>V\<close> although only \<open>V - 1\<close> segments are labelled and drawn: "Outage Segments"
  is the number of red segments, and "Normal Segments" is one more than the number of
  green segments.
\<close>

theorem route_summary_counts:
  assumes "show_route_mode N key search directions ui st = (Some rd, msg, RouteShown v)"
  shows "outage_segments v + normal_segments v = int (length (rd_route rd))
       \<and> length (polylines v) + 1 = length (rd_route rd)
       \<and> outage_segments v = int (length (filter (\<lambda>l. snd (snd l) = Red) (polylines v)))
       \<and> normal_segments v = int (length (filter (\<lambda>l. snd (snd l) = Green) (polylines v))) + 1"
proof -
  from show_route_mode_shown[OF assms] have r: "render_route N rd = Inr v" by simp
  note c = render_route_counts[OF r]
  have "int (length (filter (\<lambda>l. snd (snd l) = Red) (polylines v)))
          + int (length (filter (\<lambda>l. snd (snd l) = Green) (polylines v)))
        = int (length (polylines v))"
    using red_green_count[of "polylines v"] by linarith
  with c show ?thesis by linarith
qed

theorem route_summary_counts_witness:
  "show_route_mode lcg_numpy (Some ''k'') demo_search demo_directions
     \<lparr> start_sel = ''A'', end_sel = ''B'', show_clicked = True \<rparr> None
   = (Some \<lparr> rd_route = [(JNum 12, JNum 77), (JNum (120073 / 10000), JNum 77), (JNum (1201 / 100), JNum 77)],
              rd_start = (JNum 12, JNum 77, JStr ''A''), rd_end = (JNum 12, JNum 77, JStr ''B''),
              rd_summary = JObj [(''distance'', JNum 12000), (''duration'', JNum 900)] \<rparr>,
      None,
      RouteShown \<lparr> map_location = (JNum 12, JNum 77),
         polylines =
           [((JNum 12, JNum 77), (JNum (120073 / 10000), JNum 77), Red),
            ((JNum (120073 / 10000), JNum 77), (JNum (1201 / 100), JNum 77), Green)],
         start_marker = ((JNum 12, JNum 77), JStr ''A''),
         end_marker = ((JNum 12, JNum 77), JStr ''B''),
         distance_km = ''12.0'', duration_min = ''15.0'',
         outage_segments = 1, normal_segments = 2 \<rparr>)
   \<and> (1::int) + 2 = int (length [(JNum 12, JNum 77), (JNum (120073 / 10000), JNum 77), (JNum (1201 / 100), JNum 77)])"
proof -
  have p1: "get_outage_prediction lcg_numpy (120073 / 10000) 77 1 = True"
    by (simp add: get_outage_prediction_def get_outage_prediction_seed_def py_int_def
          lcg_numpy_def lcg_next_def)
  have p2: "get_outage_prediction lcg_numpy (1201 / 100) 77 2 = False"
    by (simp add: get_outage_prediction_def get_outage_prediction_seed_def py_int_def
          lcg_numpy_def lcg_next_def)
  have g: "get_route (Some ''k'') demo_search demo_directions ''A'' ''B'' =
           Inr \<lparr> rd_route = [(JNum 12, JNum 77), (JNum (120073 / 10000), JNum 77), (JNum (1201 / 100), JNum 77)],
                 rd_start = (JNum 12, JNum 77, JStr ''A''), rd_end = (JNum 12, JNum 77, JStr ''B''),
                 rd_summary = JObj [(''distance'', JNum 12000), (''duration'', JNum 900)] \<rparr>"
    by (rule get_route_three_points [where status = 200])
       (simp_all add: demo_geocode demo_directions_def)
  have s: "show_route_mode lcg_numpy (Some ''k'') demo_search demo_directions
     \<lparr> start_sel = ''A'', end_sel = ''B'', show_clicked = True \<rparr> None
   = (Some \<lparr> rd_route = [(JNum 12, JNum 77), (JNum (120073 / 10000), JNum 77), (JNum (1201 / 100), JNum 77)],
              rd_start = (JNum 12, JNum 77, JStr ''A''), rd_end = (JNum 12, JNum 77, JStr ''B''),
              rd_summary = JObj [(''distance'', JNum 12000), (''duration'', JNum 900)] \<rparr>,
      None,
      RouteShown \<lparr> map_location = (JNum 12, JNum 77),
         polylines =
           [((JNum 12, JNum 77), (JNum (120073 / 10000), JNum 77), Red),
            ((JNum (120073 / 10000), JNum 77), (JNum (1201 / 100), JNum 77), Green)],
         start_marker = ((JNum 12, JNum 77), JStr ''A''),
         end_marker = ((JNum 12, JNum 77), JStr ''B''),
         distance_km = ''12.0'', duration_min = ''15.0'',
         outage_segments = 1, normal_segments = 2 \<rparr>)"
    by (simp add: show_route_mode_def key_missing_def g render_route_three_points p1 p2)
  from route_summary_counts [OF s] s show ?thesis by simp
qed

lemma get_route_geocoding_fails:
  assumes "ors_geocode key search start = None \<or> ors_geocode key search end = None"
  shows "get_route key search directions start end = Inl (ValueError ''Geocoding failed for start or end'')"
  using assms by (auto simp: get_route_def Let_def split: option.splits)

lemma get_route_no_features:
  assumes "ors_geocode key search start = Some s" "ors_geocode key search end = Some e"
    and "checked_json (directions (fst (snd s), fst s) (fst (snd e), fst e)) = Inr body"
    and "dict_get body ''features'' (JArr []) = Inr feats" "\<not> py_truthy feats"
  shows "get_route key search directions start end = Inl (ValueError ''No route found'')"
  using assms by (simp add: get_route_def Let_def bind_exn_def)

lemma get_route_coords_request_fails:
  assumes "checked_json (directions a b) = Inl e"
  shows "get_route_coords directions a b = ([], 0, 0)"
  using assms by (simp add: get_route_coords_def bind_exn_def)

lemma get_route_coords_no_features:
  assumes "checked_json (directions a b) = Inr body"
    and "getitem_key body ''features'' = Inl e \<or> getitem_key body ''features'' = Inr (JArr [])"
  shows "get_route_coords directions a b = ([], 0, 0)"
  using assms by (auto simp: get_route_coords_def bind_exn_def)

text \<open>
  C7, as the code has it. \<open>get_route\<close> of the route page raises the error "Geocoding
  failed for start or end" when the geocoding of the start or of the end gives nothing,
  and "No route found" when the reply of the provider holds no feature; it returns no
  fallback then. The helper \<open>get_route_coords\<close> of route\_utils.py takes coordinates, does
  no geocoding and never raises: when the request fails or the reply holds no feature it
  returns the fallback \<open>[], 0, 0\<close>.
\<close>

theorem route_directions_errors:
  "(ors_geocode key search start = None \<or> ors_geocode key search dest = None \<longrightarrow>
      get_route key search directions start dest
        = Inl (ValueError ''Geocoding failed for start or end''))
   \<and> (ors_geocode key search start = Some s \<and> ors_geocode key search dest = Some e \<and>
      checked_json (directions (fst (snd s), fst s) (fst (snd e), fst e)) = Inr body \<and>
      dict_get body ''features'' (JArr []) = Inr feats \<and> \<not> py_truthy feats \<longrightarrow>
      get_route key search directions start dest = Inl (ValueError ''No route found''))
   \<and> (checked_json (post a b) = Inl err \<longrightarrow> get_route_coords post a b = ([], 0, 0))
   \<and> (checked_json (post a b) = Inr body' \<and>
      (getitem_key body' ''features'' = Inl err' \<or> getitem_key body' ''features'' = Inr (JArr [])) \<longrightarrow>
      get_route_coords post a b = ([], 0, 0))"
proof (intro conjI impI)
  assume "ors_geocode key search start = None \<or> ors_geocode key search dest = None"
  then show "get_route key search directions start dest
        = Inl (ValueError ''Geocoding failed for start or end'')"
    by (rule get_route_geocoding_fails)
next
  assume "ors_geocode key search start = Some s \<and> ors_geocode key search dest = Some e \<and>
      checked_json (directions (fst (snd s), fst s) (fst (snd e), fst e)) = Inr body \<and>
      dict_get body ''features'' (JArr []) = Inr feats \<and> \<not> py_truthy feats"
  then show "get_route key search directions start dest = Inl (ValueError ''No route found'')"
    by (intro get_route_no_features [where s = s and e = e and body = body and feats = feats])
       simp_all
next
  assume "checked_json (post a b) = Inl err"
  then show "get_route_coords post a b = ([], 0, 0)"
    by (rule get_route_coords_request_fails)
next
  assume "checked_json (post a b) = Inr body' \<and>
      (getitem_key body' ''features'' = Inl err' \<or> getitem_key body' ''features'' = Inr (JArr []))"
  then show "get_route_coords post a b = ([], 0, 0)"
    by (intro get_route_coords_no_features [where body = body' and e = err']) simp_all
qed

theorem route_directions_errors_witness:
  "ors_geocode None demo_search ''A'' = None
   \<and> get_route None demo_search demo_directions ''A'' ''B''
       = Inl (ValueError ''Geocoding failed for start or end'')
   \<and> ors_geocode (Some ''k'') demo_search ''A'' = Some (JNum 12, JNum 77, JStr ''A'')
   \<and> get_route (Some ''k'') demo_search no_route_directions ''A'' ''B''
       = Inl (ValueError ''No route found'')
   \<and> get_route_coords (\<lambda>a b. Fails Timeout) (JNum 77, JNum 12) (JNum 78, JNum 13) = ([], 0, 0)
   \<and> get_route_coords no_route_directions (JNum 77, JNum 12) (JNum 78, JNum 13) = ([], 0, 0)"
proof -
  have n: "ors_geocode None demo_search ''A'' = None"
    by (simp add: ors_geocode_def key_missing_def)
  have c: "checked_json (no_route_directions x y) = Inr (JObj [(''features'', JArr [])])" for x y
    by (simp add: no_route_directions_def checked_json_def raise_for_status_def resp_json_def
          bind_exn_def)
  have t: "checked_json ((\<lambda>a b. Fails Timeout) (JNum 77, JNum 12) (JNum 78, JNum 13)) = Inl Timeout"
    by (simp add: checked_json_def)
  note w1 = route_directions_errors [where key = None and search = demo_search and start = "''A''"
      and dest = "''B''" and directions = demo_directions and post = "\<lambda>a b. Fails Timeout"
      and a = "(JNum 77, JNum 12)" and b = "(JNum 78, JNum 13)" and err = Timeout]
  note w2 = route_directions_errors [where key = "Some ''k''" and search = demo_search
      and start = "''A''" and dest = "''B''" and directions = no_route_directions
      and s = "(JNum 12, JNum 77, JStr ''A'')" and e = "(JNum 12, JNum 77, JStr ''B'')"
      and body = "JObj [(''features'', JArr [])]" and feats = "JArr []"
      and post = no_route_directions and a = "(JNum 77, JNum 12)" and b = "(JNum 78, JNum 13)"
      and body' = "JObj [(''features'', JArr [])]"]
  from w1 n t have "get_route None demo_search demo_directions ''A'' ''B''
       = Inl (ValueError ''Geocoding failed for start or end'')"
    "get_route_coords (\<lambda>a b. Fails Timeout) (JNum 77, JNum 12) (JNum 78, JNum 13) = ([], 0, 0)"
    by simp_all
  moreover from w2 c have "get_route (Some ''k'') demo_search no_route_directions ''A'' ''B''
       = Inl (ValueError ''No route found'')"
    "get_route_coords no_route_directions (JNum 77, JNum 12) (JNum 78, JNum 13) = ([], 0, 0)"
    by (simp_all add: demo_geocode)
  ultimately show ?thesis using n demo_geocode by simp
qed

text \<open>The claim read on both route-directions functions fails on the helper: with no
  route in the reply, and with a timeout, it returns the fallback.\<close>

theorem get_route_coords_fallback_counterexample:
  "get_route_coords (\<lambda>a b. Reply 200 (Some (JObj [(''features'', JArr [])])))
     (JNum 77, JNum 12) (JNum 78, JNum 13) = ([], 0, 0)
   \<and> get_route_coords (\<lambda>a b. Fails Timeout) (JNum 77, JNum 12) (JNum 78, JNum 13) = ([], 0, 0)"
  by (simp add: get_route_coords_def bind_exn_def checked_json_def raise_for_status_def resp_json_def)

lemma geocode_place_not_found:
  assumes "geo place = GeoNone \<or> geo place = GeoRaises GeocoderTimedOut"
    and "geo (place @ '', India'') = GeoNone \<or> geo (place @ '', India'') = GeoRaises GeocoderTimedOut"
  shows "geocode_place geo place = Inr None"
  using assms by (auto simp: geocode_place_def)

lemma ors_geocode_not_found:
  assumes "key_missing key \<or> search place = Fails Timeout \<or>
           (\<exists>status body feats. search place = Reply status (Some body) \<and>
              \<not> (400 \<le> status \<and> status < 600) \<and>
              dict_get body ''features'' (JArr []) = Inr feats \<and> \<not> py_truthy feats)"
  shows "ors_geocode key search place = None"
  using assms
  by (auto simp: ors_geocode_def bind_exn_def checked_json_def raise_for_status_def resp_json_def)

lemma fetch_phase_not_found:
  assumes "geocode_place (geocoder W) (location_input ui) = Inr None"
  shows "fetch_phase W ui s = (s, None)"
  using assms by (simp add: fetch_phase_def)

lemma show_location_mode_not_found:
  assumes "geocode_place (geocoder W) (location_input ui) = Inr None" "ss_weather_df s = None"
  shows "run_screen (show_location_mode N W ui s) = EnterLocation"
    and "run_fit (show_location_mode N W ui s) = None"
  using assms by (simp_all add: show_location_mode_def fetch_phase_not_found Let_def)

text \<open>
  C6. Forward geocoding answers a query that the provider cannot resolve with the
  sentinel \<open>None\<close> and not with an exception. \<open>geocode_place\<close> asks the provider for the
  place and then for the place with ", India" appended: when each of the two gets no
  result or a timeout, it returns \<open>None\<close>. \<open>ors_geocode\<close> returns \<open>None\<close> when the key is not
  set, when the request times out and when the reply holds no feature. The callers
  branch on the sentinel: the location page leaves its state as it was and fetches
  nothing, and \<open>get_route\<close> raises "Geocoding failed for start or end".
\<close>

theorem forward_geocoding_not_found:
  "((\<forall>q \<in> set [place, place @ '', India''].
        geo q = GeoNone \<or> geo q = GeoRaises GeocoderTimedOut) \<longrightarrow>
      geocode_place geo place = Inr None)
   \<and> (key_missing key \<or> search place = Fails Timeout \<or>
       (\<exists>status body feats. search place = Reply status (Some body) \<and>
          \<not> (400 \<le> status \<and> status < 600) \<and>
          dict_get body ''features'' (JArr []) = Inr feats \<and> \<not> py_truthy feats) \<longrightarrow>
      ors_geocode key search place = None)
   \<and> (geocode_place (geocoder W) (location_input ui) = Inr None \<longrightarrow>
      fetch_phase W ui s = (s, None))
   \<and> (geocode_place (geocoder W) (location_input ui) = Inr None \<and> ss_weather_df s = None \<longrightarrow>
      run_screen (show_location_mode N W ui s) = EnterLocation \<and>
      run_fit (show_location_mode N W ui s) = None)
   \<and> (ors_geocode key search start = None \<or> ors_geocode key search dest = None \<longrightarrow>
      get_route key search directions start dest
        = Inl (ValueError ''Geocoding failed for start or end''))"
proof (intro conjI impI)
  assume "\<forall>q \<in> set [place, place @ '', India''].
        geo q = GeoNone \<or> geo q = GeoRaises GeocoderTimedOut"
  then show "geocode_place geo place = Inr None"
    by (intro geocode_place_not_found) simp_all
next
  assume "key_missing key \<or> search place = Fails Timeout \<or>
       (\<exists>status body feats. search place = Reply status (Some body) \<and>
          \<not> (400 \<le> status \<and> status < 600) \<and>
          dict_get body ''features'' (JArr []) = Inr feats \<and> \<not> py_truthy feats)"
  then show "ors_geocode key search place = None" by (rule ors_geocode_not_found)
next
  assume "geocode_place (geocoder W) (location_input ui) = Inr None"
  then show "fetch_phase W ui s = (s, None)" by (rule fetch_phase_not_found)
next
  assume a: "geocode_place (geocoder W) (location_input ui) = Inr None \<and> ss_weather_df s = None"
  then show "run_screen (show_location_mode N W ui s) = EnterLocation"
    by (intro show_location_mode_not_found) simp_all
  from a show "run_fit (show_location_mode N W ui s) = None"
    by (intro show_location_mode_not_found) simp_all
next
  assume "ors_geocode key search start = None \<or> ors_geocode key search dest = None"
  then show "get_route key search directions start dest
        = Inl (ValueError ''Geocoding failed for start or end'')"
    by (rule get_route_geocoding_fails)
qed

theorem forward_geocoding_not_found_witness:
  "geocoder nowhere_world ''Atlantis'' = GeoNone
   \<and> geocoder nowhere_world (''Atlantis'' @ '', India'') = GeoRaises GeocoderTimedOut
   \<and> geocode_place (geocoder nowhere_world) ''Atlantis'' = Inr None
   \<and> ors_geocode (Some ''k'') (\<lambda>q. Fails Timeout) ''Atlantis'' = None
   \<and> ors_geocode (Some ''k'') (\<lambda>q. Reply 200 (Some (JObj [(''features'', JArr [])]))) ''Atlantis'' = None
   \<and> fetch_phase nowhere_world (fetch_ui ''Atlantis'') empty_session = (empty_session, None)
   \<and> run_screen (show_location_mode lcg_numpy nowhere_world (fetch_ui ''Atlantis'') empty_session)
       = EnterLocation
   \<and> get_route (Some ''k'') (\<lambda>q. Fails Timeout) demo_directions ''Atlantis'' ''B''
       = Inl (ValueError ''Geocoding failed for start or end'')"
proof -
  have g1: "geocoder nowhere_world ''Atlantis'' = GeoNone"
    and g2: "geocoder nowhere_world (''Atlantis'' @ '', India'') = GeoRaises GeocoderTimedOut"
    by (simp_all add: nowhere_world_def offline_world_def)
  have li: "location_input (fetch_ui ''Atlantis'') = ''Atlantis''" by (simp add: fetch_ui_def)
  have w: "ss_weather_df empty_session = None" by (simp add: empty_session_def)
  note t1 = forward_geocoding_not_found [where geo = "geocoder nowhere_world" and place = "''Atlantis''"
      and key = "Some ''k''" and search = "\<lambda>q. Fails Timeout" and W = nowhere_world
      and ui = "fetch_ui ''Atlantis''" and s = empty_session and N = lcg_numpy
      and start = "''Atlantis''" and dest = "''B''" and directions = demo_directions]
  note t2 = forward_geocoding_not_found [where key = "Some ''k''" and place = "''Atlantis''"
      and search = "\<lambda>q. Reply 200 (Some (JObj [(''features'', JArr [])]))"]
  from t1 g1 g2 have a: "geocode_place (geocoder nowhere_world) ''Atlantis'' = Inr None" by simp
  from t1 have b: "ors_geocode (Some ''k'') (\<lambda>q. Fails Timeout) ''Atlantis'' = None" by simp
  have "\<exists>status body feats.
          (\<lambda>q. Reply 200 (Some (JObj [(''features'', JArr [])]))) ''Atlantis'' = Reply status (Some body) \<and>
          \<not> (400 \<le> status \<and> status < 600) \<and>
          dict_get body ''features'' (JArr []) = Inr feats \<and> \<not> py_truthy feats"
    by (intro exI [where x = 200] exI [where x = "JObj [(''features'', JArr [])]"]
          exI [where x = "JArr []"]) simp
  with t2 have c: "ors_geocode (Some ''k'') (\<lambda>q. Reply 200 (Some (JObj [(''features'', JArr [])])))
       ''Atlantis'' = None" by blast
  from t1 a li have d: "fetch_phase nowhere_world (fetch_ui ''Atlantis'') empty_session = (empty_session, None)"
    by simp
  from t1 a li w have e: "run_screen (show_location_mode lcg_numpy nowhere_world (fetch_ui ''Atlantis'') empty_session)
       = EnterLocation" by simp
  from t1 b have f: "get_route (Some ''k'') (\<lambda>q. Fails Timeout) demo_directions ''Atlantis'' ''B''
       = Inl (ValueError ''Geocoding failed for start or end'')" by simp
  from g1 g2 a b c d e f show ?thesis by simp
qed

lemma fetch_openweather_request_fails:
  assumes "api lat lon = Fails e"
  shows "fetch_openweather api lat lon = Inl e"
  using assms by (simp add: fetch_openweather_def checked_json_def bind_exn_def)

lemma fetch_phase_fetch_fails:
  assumes "location_input ui \<noteq> []" "fetch_clicked ui"
    and "geocode_place (geocoder W) (location_input ui) = Inr (Some (lat, lon, nm))"
    and "fetch_openweather (forecast_api W) lat lon = Inl e"
  shows "fetch_phase W ui s = (s\<lparr>ss_loc := Some (lat, lon, nm)\<rparr>, Some e)"
  using assms by (simp add: fetch_phase_def)

lemma show_location_mode_raises:
  assumes "fetch_phase W ui (if ss_trigger s = None then s\<lparr>ss_trigger := Some False\<rparr> else s)
             = (s', Some e)"
  shows "show_location_mode N W ui s
           = \<lparr> run_session = s', run_fit = None, run_screen = LocRaised e \<rparr>"
  unfolding show_location_mode_def Let_def assms by simp

lemma show_location_mode_fetch_fails:
  assumes "location_input ui \<noteq> []" "fetch_clicked ui"
    and "geocode_place (geocoder W) (location_input ui) = Inr (Some (lat, lon, nm))"
    and "fetch_openweather (forecast_api W) lat lon = Inl e"
  shows "run_screen (show_location_mode N W ui s) = LocRaised e"
    and "run_fit (show_location_mode N W ui s) = None"
    and "ss_prediction (run_session (show_location_mode N W ui s)) = ss_prediction s"
    and "ss_prediction_done (run_session (show_location_mode N W ui s)) = ss_prediction_done s"
proof -
  let ?s1 = "if ss_trigger s = None then s\<lparr>ss_trigger := Some False\<rparr> else s"
  have r: "show_location_mode N W ui s
           = \<lparr> run_session = ?s1\<lparr>ss_loc := Some (lat, lon, nm)\<rparr>, run_fit = None,
               run_screen = LocRaised e \<rparr>"
    by (rule show_location_mode_raises) (rule fetch_phase_fetch_fails [OF assms])
  show "run_screen (show_location_mode N W ui s) = LocRaised e" by (simp add: r)
  show "run_fit (show_location_mode N W ui s) = None" by (simp add: r)
  show "ss_prediction (run_session (show_location_mode N W ui s)) = ss_prediction s"
    by (simp add: r)
  show "ss_prediction_done (run_session (show_location_mode N W ui s)) = ss_prediction_done s"
    by (simp add: r)
qed

lemma get_weather_data_fallback:
  assumes "unchecked_json reply = Inl e"
  shows "get_weather_data R reply g =
           (JNum (of_int (fst (rnd_randint R 0 100 g))), snd (rnd_randint R 0 100 g))"
  using assms by (simp add: get_weather_data_def bind_exn_def split_beta)

lemma randint_bounds:
  assumes "random_contract R" "a \<le> b"
  shows "a \<le> fst (rnd_randint R a b g)" "fst (rnd_randint R a b g) \<le> b"
  using assms by (simp_all add: random_contract_def)

lemma uniform_bounds:
  assumes "random_contract R" "a \<le> b"
  shows "a \<le> fst (rnd_uniform R a b g)" "fst (rnd_uniform R a b g) \<le> b"
  using assms by (simp_all add: random_contract_def)

lemma lcg_random_contract: "random_contract lcg_random"
proof -
  have u: "a \<le> a + (b - a) * (real (g mod 1000) / 1000) \<and>
           a + (b - a) * (real (g mod 1000) / 1000) \<le> b"
    if "a \<le> b" for a b :: real and g :: nat
    using that by (intro lcg_fraction_bounds) simp_all
  have i: "a \<le> a + int g mod (b - a + 1) \<and> a + int g mod (b - a + 1) \<le> b"
    if "a \<le> b" for a b :: int and g :: nat
  proof -
    from that have p: "0 < b - a + 1" by simp
    have "0 \<le> int g mod (b - a + 1)" using p by (rule pos_mod_sign)
    moreover have "int g mod (b - a + 1) < b - a + 1" using p by (rule pos_mod_bound)
    ultimately show ?thesis by linarith
  qed
  show ?thesis
    unfolding random_contract_def lcg_random_def
    using u i by simp
qed

lemma fetch_openweather_status_fails:
  assumes "api lat lon = Reply st b" "400 \<le> st" "st < 600"
  shows "fetch_openweather api lat lon = Inl (HTTPError st)"
  using assms
  by (simp add: fetch_openweather_def checked_json_def raise_for_status_def bind_exn_def)

lemma get_weather_data_fallback_shape:
  assumes "unchecked_json reply = Inr body"
    and "dict_get body ''clouds'' (JObj []) = Inl e \<or>
         (\<exists>c. dict_get body ''clouds'' (JObj []) = Inr c \<and> dict_get c ''all'' (JNum 0) = Inl e)"
  shows "get_weather_data R reply g =
           (JNum (of_int (fst (rnd_randint R 0 100 g))), snd (rnd_randint R 0 100 g))"
  using assms by (auto simp: get_weather_data_def bind_exn_def split_beta)

lemma get_weather_data_fetched:
  assumes "unchecked_json reply = Inr body"
    and "dict_get body ''clouds'' (JObj []) = Inr c" "dict_get c ''all'' (JNum 0) = Inr v"
  shows "get_weather_data R reply g = (v, g)"
  using assms by (simp add: get_weather_data_def bind_exn_def)

lemma get_weather_data_no_clouds:
  assumes "map_of kvs ''clouds'' = None"
  shows "get_weather_data R (Reply st (Some (JObj kvs))) g = (JNum 0, g)"
  using assms
  by (simp add: get_weather_data_def unchecked_json_def resp_json_def bind_exn_def)

text \<open>
  C5, as the code has it. A forecast request that fails (the request raises, a timeout
  for one, or the status is an error status) leaves \<open>fetch_openweather\<close> as an exception.
  In the run of the location page that makes the request, the exception ends the run:
  nothing is handed to \<open>model.fit\<close> and the stored prediction is left as it was. The
  weather helper of the route overview never raises. When its request raises, when the
  body is not JSON and when the body or its \<open>clouds\<close> entry is not an object, it returns
  the draw \<open>random.randint(0, 100)\<close>, a number from 0 to 100. It checks no status: when
  a JSON object arrives, under an error status too, it draws nothing and returns the
  \<open>all\<close> entry of \<open>clouds\<close>, or 0 when there is none.
\<close>

theorem weather_fetch_failure_policy:
  "(api lat lon = Fails e \<longrightarrow> fetch_openweather api lat lon = Inl e)
   \<and> (api lat lon = Reply st b \<and> 400 \<le> st \<and> st < 600 \<longrightarrow>
        fetch_openweather api lat lon = Inl (HTTPError st))
   \<and> (location_input ui \<noteq> [] \<and> fetch_clicked ui \<and>
      geocode_place (geocoder W) (location_input ui) = Inr (Some (lat, lon, nm)) \<and>
      fetch_openweather (forecast_api W) lat lon = Inl e \<longrightarrow>
        run_screen (show_location_mode N W ui s) = LocRaised e \<and>
        run_fit (show_location_mode N W ui s) = None \<and>
        ss_prediction (run_session (show_location_mode N W ui s)) = ss_prediction s \<and>
        ss_prediction_done (run_session (show_location_mode N W ui s)) = ss_prediction_done s)
   \<and> (unchecked_json reply = Inl e \<longrightarrow>
        get_weather_data R reply g =
          (JNum (of_int (fst (rnd_randint R 0 100 g))), snd (rnd_randint R 0 100 g)))
   \<and> (unchecked_json reply = Inr body \<and>
        (dict_get body ''clouds'' (JObj []) = Inl e \<or>
         (\<exists>c. dict_get body ''clouds'' (JObj []) = Inr c \<and> dict_get c ''all'' (JNum 0) = Inl e)) \<longrightarrow>
        get_weather_data R reply g =
          (JNum (of_int (fst (rnd_randint R 0 100 g))), snd (rnd_randint R 0 100 g)))
   \<and> (unchecked_json reply = Inr body \<and> dict_get body ''clouds'' (JObj []) = Inr c \<and>
        dict_get c ''all'' (JNum 0) = Inr v \<longrightarrow>
        get_weather_data R reply g = (v, g))
   \<and> (map_of kvs ''clouds'' = None \<longrightarrow>
        get_weather_data R (Reply st (Some (JObj kvs))) g = (JNum 0, g))
   \<and> (random_contract R \<longrightarrow>
        0 \<le> fst (rnd_randint R 0 100 g) \<and> fst (rnd_randint R 0 100 g) \<le> 100)"
proof (intro conjI impI)
  assume "api lat lon = Fails e"
  then show "fetch_openweather api lat lon = Inl e" by (rule fetch_openweather_request_fails)
next
  assume "api lat lon = Reply st b \<and> 400 \<le> st \<and> st < 600"
  then show "fetch_openweather api lat lon = Inl (HTTPError st)"
    by (intro fetch_openweather_status_fails [where b = b]) simp_all
next
  assume a: "location_input ui \<noteq> [] \<and> fetch_clicked ui \<and>
      geocode_place (geocoder W) (location_input ui) = Inr (Some (lat, lon, nm)) \<and>
      fetch_openweather (forecast_api W) lat lon = Inl e"
  then show "run_screen (show_location_mode N W ui s) = LocRaised e"
    by (intro show_location_mode_fetch_fails [where lat = lat and lon = lon and nm = nm]) simp_all
  from a show "run_fit (show_location_mode N W ui s) = None"
    by (intro show_location_mode_fetch_fails [where lat = lat and lon = lon and nm = nm and e = e])
       simp_all
  from a show "ss_prediction (run_session (show_location_mode N W ui s)) = ss_prediction s"
    by (intro show_location_mode_fetch_fails [where lat = lat and lon = lon and nm = nm and e = e])
       simp_all
  from a show "ss_prediction_done (run_session (show_location_mode N W ui s)) = ss_prediction_done s"
    by (intro show_location_mode_fetch_fails [where lat = lat and lon = lon and nm = nm and e = e])
       simp_all
next
  assume "unchecked_json reply = Inl e"
  then show "get_weather_data R reply g =
          (JNum (of_int (fst (rnd_randint R 0 100 g))), snd (rnd_randint R 0 100 g))"
    by (rule get_weather_data_fallback)
next
  assume "unchecked_json reply = Inr body \<and>
        (dict_get body ''clouds'' (JObj []) = Inl e \<or>
         (\<exists>c. dict_get body ''clouds'' (JObj []) = Inr c \<and> dict_get c ''all'' (JNum 0) = Inl e))"
  then show "get_weather_data R reply g =
          (JNum (of_int (fst (rnd_randint R 0 100 g))), snd (rnd_randint R 0 100 g))"
    by (intro get_weather_data_fallback_shape [where body = body and e = e]) simp_all
next
  assume "unchecked_json reply = Inr body \<and> dict_get body ''clouds'' (JObj []) = Inr c \<and>
        dict_get c ''all'' (JNum 0) = Inr v"
  then show "get_weather_data R reply g = (v, g)"
    by (intro get_weather_data_fetched [where body = body and c = c]) simp_all
next
  assume "map_of kvs ''clouds'' = None"
  then show "get_weather_data R (Reply st (Some (JObj kvs))) g = (JNum 0, g)"
    by (rule get_weather_data_no_clouds)
next
  assume c: "random_contract R"
  show "0 \<le> fst (rnd_randint R 0 100 g)" by (rule randint_bounds [OF c]) simp
  show "fst (rnd_randint R 0 100 g) \<le> 100" by (rule randint_bounds [OF c]) simp
qed


theorem weather_fetch_failure_policy_witness:
  "forecast_api offline_world 12 77 = Fails Timeout
   \<and> fetch_openweather (forecast_api offline_world) 12 77 = Inl Timeout
   \<and> geocode_place (geocoder offline_world) ''Bengaluru'' = Inr (Some (12, 77, ''Bengaluru''))
   \<and> run_screen (show_location_mode lcg_numpy offline_world (fetch_ui ''Bengaluru'') empty_session)
       = LocRaised Timeout
   \<and> run_fit (show_location_mode lcg_numpy offline_world (fetch_ui ''Bengaluru'') empty_session)
       = None
   \<and> get_weather_data lcg_random (Fails Timeout) 75 = (JNum 75, lcg_next 75)
   \<and> fetch_openweather (\<lambda>lat lon. unauthorized_reply) 12 77 = Inl (HTTPError 401)
   \<and> get_weather_data lcg_random unauthorized_reply 75 = (JNum 0, 75)
   \<and> random_contract lcg_random
   \<and> fst (rnd_randint lcg_random 0 100 75) \<le> 100"
proof -
  have f: "forecast_api offline_world 12 77 = Fails Timeout" by (simp add: offline_world_def)
  have g: "geocode_place (geocoder offline_world) ''Bengaluru'' = Inr (Some (12, 77, ''Bengaluru''))"
    by (simp add: geocode_place_def offline_world_def)
  have u: "location_input (fetch_ui ''Bengaluru'') = ''Bengaluru''" "fetch_clicked (fetch_ui ''Bengaluru'')"
    by (simp_all add: fetch_ui_def)
  have k: "rnd_randint lcg_random 0 100 75 = (75, lcg_next 75)"
    by (simp add: lcg_random_def)
  have uj: "unchecked_json (Fails Timeout) = Inl Timeout" by (simp add: unchecked_json_def)
  note t = weather_fetch_failure_policy [where api = "forecast_api offline_world" and lat = 12
      and lon = 77 and e = Timeout and W = offline_world and ui = "fetch_ui ''Bengaluru''"
      and nm = "''Bengaluru''" and N = lcg_numpy and s = empty_session and R = lcg_random
      and g = 75 and reply = "Fails Timeout"]
  note t1 = conjunct1 [OF t]
  note t3 = conjunct1 [OF conjunct2 [OF conjunct2 [OF t]]]
  note t4 = conjunct1 [OF conjunct2 [OF conjunct2 [OF conjunct2 [OF t]]]]
  note t8 = conjunct2 [OF conjunct2 [OF conjunct2 [OF conjunct2 [OF conjunct2 [OF conjunct2
              [OF conjunct2 [OF t]]]]]]]
  from mp [OF t1 f] have a: "fetch_openweather (forecast_api offline_world) 12 77 = Inl Timeout" .
  have pre: "location_input (fetch_ui ''Bengaluru'') \<noteq> [] \<and> fetch_clicked (fetch_ui ''Bengaluru'') \<and>
      geocode_place (geocoder offline_world) (location_input (fetch_ui ''Bengaluru''))
        = Inr (Some (12, 77, ''Bengaluru'')) \<and>
      fetch_openweather (forecast_api offline_world) 12 77 = Inl Timeout"
    using a g u by simp
  from mp [OF t3 pre] have b:
    "run_screen (show_location_mode lcg_numpy offline_world (fetch_ui ''Bengaluru'') empty_session)
       = LocRaised Timeout"
    "run_fit (show_location_mode lcg_numpy offline_world (fetch_ui ''Bengaluru'') empty_session) = None"
    by blast+
  from mp [OF t4 uj] have c: "get_weather_data lcg_random (Fails Timeout) 75 = (JNum 75, lcg_next 75)"
    unfolding k by simp
  from mp [OF t8 lcg_random_contract] have d: "fst (rnd_randint lcg_random 0 100 75) \<le> 100"
    by (rule conjunct2)
  note t' = weather_fetch_failure_policy [where api = "\<lambda>lat lon. unauthorized_reply" and lat = 12
      and lon = 77 and st = 401
      and b = "Some (JObj [(''cod'', JNum 401), (''message'', JStr ''Invalid API key'')])"
      and kvs = "[(''cod'', JNum 401), (''message'', JStr ''Invalid API key'')]"
      and R = lcg_random and g = 75]
  note t2' = conjunct1 [OF conjunct2 [OF t']]
  note t7' = conjunct1 [OF conjunct2 [OF conjunct2 [OF conjunct2 [OF conjunct2 [OF conjunct2
              [OF conjunct2 [OF t']]]]]]]
  have pre2: "(\<lambda>lat lon. unauthorized_reply) 12 77 =
        Reply 401 (Some (JObj [(''cod'', JNum 401), (''message'', JStr ''Invalid API key'')])) \<and>
      400 \<le> (401::nat) \<and> (401::nat) < 600"
    by (simp add: unauthorized_reply_def)
  from mp [OF t2' pre2] have h:
    "fetch_openweather (\<lambda>lat lon. unauthorized_reply) 12 77 = Inl (HTTPError 401)" .
  have pre3: "map_of [(''cod'', JNum 401), (''message'', JStr ''Invalid API key'')] ''clouds'' = None"
    by simp
  from mp [OF t7' pre3] have i: "get_weather_data lcg_random unauthorized_reply 75 = (JNum 0, 75)"
    by (simp add: unauthorized_reply_def)
  show ?thesis
    by (intro conjI f a g b c h i d lcg_random_contract)
qed

text \<open>The claim read on every failure of the forecast request fails on an error status:
  \<open>fetch_openweather\<close> raises, the helper checks no status, finds no \<open>clouds\<close> entry and
  returns the default 0 with no draw, where a draw would have given 75.\<close>

theorem get_weather_data_http_error_counterexample:
  "fetch_openweather (\<lambda>lat lon. unauthorized_reply) 12 77 = Inl (HTTPError 401)
   \<and> get_weather_data lcg_random unauthorized_reply 75 = (JNum 0, 75)
   \<and> rnd_randint lcg_random 0 100 75 = (75, 5699)"
  by (simp add: fetch_openweather_def checked_json_def raise_for_status_def bind_exn_def
        unauthorized_reply_def get_weather_data_def unchecked_json_def resp_json_def
        lcg_random_def lcg_next_def)

lemma length_every_third: "length (every_third xs) = (length xs + 2) div 3"
  by (induction xs rule: every_third.induct) auto

lemma nth_every_third:
  "k < length (every_third xs) \<Longrightarrow> every_third xs ! k = xs ! (3 * k)"
proof (induction xs arbitrary: k rule: every_third.induct)
  case 1
  then show ?case by simp
next
  case (2 x xs)
  show ?case
  proof (cases k)
    case 0
    then show ?thesis by simp
  next
    case (Suc j)
    with "2.prems" have j: "j < length (every_third (drop 2 xs))" by simp
    then have "0 < length (drop 2 xs)" by (cases "drop 2 xs") auto
    then have l: "2 < length xs" by simp
    from "2.IH"[OF j] have "every_third (drop 2 xs) ! j = drop 2 xs ! (3 * j)" .
    also have "\<dots> = xs ! (2 + 3 * j)" using l by simp
    finally show ?thesis using Suc by simp
  qed
qed

lemma round_half_even_bounds:
  assumes "of_int a \<le> y" "y \<le> of_int b"
  shows "a \<le> round_half_even y" "round_half_even y \<le> b"
proof -
  have f: "a \<le> \<lfloor>y\<rfloor>" using assms(1) by (simp add: le_floor_iff)
  then show "a \<le> round_half_even y" by (simp add: round_half_even_def Let_def)
  have fb: "\<lfloor>y\<rfloor> \<le> b" using assms(2) by (simp add: floor_le_iff)
  show "round_half_even y \<le> b"
  proof (cases "\<lfloor>y\<rfloor> = b")
    case True
    then have "y - of_int \<lfloor>y\<rfloor> \<le> 0" using assms(2) by simp
    then show ?thesis using True by (simp add: round_half_even_def Let_def)
  next
    case False
    with fb have "\<lfloor>y\<rfloor> + 1 \<le> b" by simp
    then show ?thesis using fb by (simp add: round_half_even_def Let_def)
  qed
qed

lemma py_round2_bounds:
  assumes "1 \<le> x" "x \<le> 35"
  shows "1 \<le> py_round2 x" "py_round2 x \<le> 35"
proof -
  have a: "of_int 100 \<le> x * 100" and b: "x * 100 \<le> of_int 3500" using assms by simp_all
  from round_half_even_bounds[OF a b]
  have "100 \<le> round_half_even (x * 100)" "round_half_even (x * 100) \<le> 3500" .
  then have "(100::real) \<le> of_int (round_half_even (x * 100))"
    "of_int (round_half_even (x * 100)) \<le> (3500::real)" by linarith+
  then show "1 \<le> py_round2 x" "py_round2 x \<le> 35" by (simp_all add: py_round2_def)
qed

lemma route_results_props:
  "route_results R weather reverse ps g = (Inr rs, g') \<Longrightarrow>
     map (\<lambda>r. (r_lat r, r_lon r)) rs = ps \<and> list_all (sampled_ok R weather) rs"
proof (induction ps arbitrary: g rs)
  case Nil
  then show ?case by simp
next
  case (Cons p ps)
  obtain lat lon where p: "p = (lat, lon)" by (cases p)
  define cloud where "cloud = fst (get_weather_data R (weather lat lon) g)"
  define g1 where "g1 = snd (get_weather_data R (weather lat lon) g)"
  define tec where "tec = py_round2 (fst (rnd_uniform R 1 35 g1))"
  define g2 where "g2 = snd (rnd_uniform R 1 35 g1)"
  define kp where "kp = fst (rnd_randint R 1 9 g2)"
  define g3 where "g3 = snd (rnd_randint R 1 9 g2)"
  have step: "route_results R weather reverse (p # ps) g =
      (case json_gt cloud 70 of
         Inl e \<Rightarrow> (Inl e, g3)
       | Inr c \<Rightarrow>
           (case route_results R weather reverse ps g3 of
              (Inl e, g') \<Rightarrow> (Inl e, g')
            | (Inr rs, g') \<Rightarrow>
                (Inr (\<lparr> r_lat = lat, r_lon = lon, r_place = get_place_name reverse lat lon,
                         r_cloud_cover = cloud, r_tec = tec, r_geomagnetic = kp,
                         r_outage = (c \<and> tec > 20 \<and> kp \<ge> 6) \<rparr> # rs), g')))"
    by (simp add: p cloud_def g1_def tec_def g2_def kp_def g3_def split_beta Let_def
          cong: sum.case_cong)
  from Cons.prems obtain c rs0 where
    c: "json_gt cloud 70 = Inr c"
    and r0: "route_results R weather reverse ps g3 = (Inr rs0, g')"
    and rs: "rs = \<lparr> r_lat = lat, r_lon = lon, r_place = get_place_name reverse lat lon,
                     r_cloud_cover = cloud, r_tec = tec, r_geomagnetic = kp,
                     r_outage = (c \<and> tec > 20 \<and> kp \<ge> 6) \<rparr> # rs0"
    unfolding step by (auto split: sum.splits prod.splits)
  from Cons.IH[OF r0] have ih: "map (\<lambda>r. (r_lat r, r_lon r)) rs0 = ps"
    "list_all (sampled_ok R weather) rs0" by simp_all
  have "sampled_ok R weather \<lparr> r_lat = lat, r_lon = lon, r_place = get_place_name reverse lat lon,
                     r_cloud_cover = cloud, r_tec = tec, r_geomagnetic = kp,
                     r_outage = (c \<and> tec > 20 \<and> kp \<ge> 6) \<rparr>"
    unfolding sampled_ok_def
    using c by (auto simp: cloud_def g1_def tec_def g2_def kp_def intro!: exI[where x = g])
  with ih show ?case by (simp add: rs p)
qed

lemma route_results_total:
  assumes "\<forall>p \<in> set ps. \<forall>g0. \<exists>c. json_gt (fst (get_weather_data R (weather (fst p) (snd p)) g0)) 70 = Inr c"
  shows "\<exists>rs g'. route_results R weather reverse ps g = (Inr rs, g')"
  using assms
proof (induction ps arbitrary: g)
  case Nil
  then show ?case by simp
next
  case (Cons p ps)
  obtain lat lon where p: "p = (lat, lon)" by (cases p)
  from Cons.prems p obtain c where
    c: "json_gt (fst (get_weather_data R (weather lat lon) g)) 70 = Inr c" by fastforce
  define g3 where "g3 = snd (rnd_randint R 1 9 (snd (rnd_uniform R 1 35
                          (snd (get_weather_data R (weather lat lon) g)))))"
  from Cons.prems have "\<forall>p \<in> set ps. \<forall>g0. \<exists>c.
      json_gt (fst (get_weather_data R (weather (fst p) (snd p)) g0)) 70 = Inr c" by simp
  from Cons.IH[OF this] obtain rs0 g' where
    "route_results R weather reverse ps g3 = (Inr rs0, g')" by blast
  then show ?case
    using c by (simp add: p g3_def split_beta Let_def)
qed


lemma predict_outage_along_route_props:
  assumes "predict_outage_along_route R weather reverse route_points g = (Inr rs, g')"
  shows "length rs = (length route_points + 2) div 3"
    and "\<forall>k < length rs. (r_lat (rs ! k), r_lon (rs ! k)) = route_points ! (3 * k)"
    and "\<forall>r \<in> set rs. sampled_ok R weather r"
proof -
  from assms have rr: "route_results R weather reverse (every_third route_points) g = (Inr rs, g')"
    by (simp add: predict_outage_along_route_def)
  from route_results_props[OF rr] have
    m: "map (\<lambda>r. (r_lat r, r_lon r)) rs = every_third route_points"
    and a: "list_all (sampled_ok R weather) rs" by simp_all
  from m have "length rs = length (every_third route_points)"
    by (metis length_map)
  then show len: "length rs = (length route_points + 2) div 3"
    by (simp add: length_every_third)
  show "\<forall>k < length rs. (r_lat (rs ! k), r_lon (rs ! k)) = route_points ! (3 * k)"
  proof (intro allI impI)
    fix k assume k: "k < length rs"
    then have "(r_lat (rs ! k), r_lon (rs ! k)) = map (\<lambda>r. (r_lat r, r_lon r)) rs ! k" by simp
    also have "\<dots> = every_third route_points ! k" by (simp add: m)
    also have "\<dots> = route_points ! (3 * k)"
      using k \<open>length rs = length (every_third route_points)\<close> by (intro nth_every_third) simp
    finally show "(r_lat (rs ! k), r_lon (rs ! k)) = route_points ! (3 * k)" .
  qed
  from a show "\<forall>r \<in> set rs. sampled_ok R weather r" by (simp add: list_all_iff)
qed

text \<open>
  C8. The route-overview helper looks at every third route point, starting with the
  first: from \<open>n\<close> points it returns \<open>(n + 2) div 3\<close> records, and record \<open>k\<close> is for point
  \<open>3 k\<close>. In each record the outage flag is true exactly when cloud cover exceeds 70,
  TEC exceeds 20 and Kp is at least 6 (Profile C), where the cloud cover is the value of
  the weather helper (fetched or fallback), TEC is a draw \<open>uniform(1, 35)\<close> rounded to two
  places and Kp a draw \<open>randint(1, 9)\<close>. The helper returns whenever every cloud value
  compares with a number.
\<close>

theorem route_overview_profile_C:
  "(predict_outage_along_route R weather reverse route_points g = (Inr rs, g') \<longrightarrow>
      length rs = (length route_points + 2) div 3
      \<and> (\<forall>k < length rs. (r_lat (rs ! k), r_lon (rs ! k)) = route_points ! (3 * k))
      \<and> (\<forall>r \<in> set rs.
            r_outage r = (json_gt (r_cloud_cover r) 70 = Inr True \<and> 20 < r_tec r \<and> 6 \<le> r_geomagnetic r))
      \<and> (\<forall>r \<in> set rs. \<exists>g0.
            r_cloud_cover r = fst (get_weather_data R (weather (r_lat r) (r_lon r)) g0) \<and>
            r_tec r = py_round2 (fst (rnd_uniform R 1 35
                        (snd (get_weather_data R (weather (r_lat r) (r_lon r)) g0)))) \<and>
            r_geomagnetic r = fst (rnd_randint R 1 9
                        (snd (rnd_uniform R 1 35
                           (snd (get_weather_data R (weather (r_lat r) (r_lon r)) g0)))))))
   \<and> ((\<forall>p \<in> set (every_third route_points). \<forall>g0. \<exists>c.
          json_gt (fst (get_weather_data R (weather (fst p) (snd p)) g0)) 70 = Inr c) \<longrightarrow>
       (\<exists>rs g'. predict_outage_along_route R weather reverse route_points g = (Inr rs, g')))"
proof (intro conjI impI)
  assume a: "predict_outage_along_route R weather reverse route_points g = (Inr rs, g')"
  note p = predict_outage_along_route_props[OF a]
  show "length rs = (length route_points + 2) div 3" by (rule p(1))
  show "\<forall>k < length rs. (r_lat (rs ! k), r_lon (rs ! k)) = route_points ! (3 * k)" by (rule p(2))
  show "\<forall>r \<in> set rs.
            r_outage r = (json_gt (r_cloud_cover r) 70 = Inr True \<and> 20 < r_tec r \<and> 6 \<le> r_geomagnetic r)"
    using p(3) by (simp add: sampled_ok_def)
  show "\<forall>r \<in> set rs. \<exists>g0.
            r_cloud_cover r = fst (get_weather_data R (weather (r_lat r) (r_lon r)) g0) \<and>
            r_tec r = py_round2 (fst (rnd_uniform R 1 35
                        (snd (get_weather_data R (weather (r_lat r) (r_lon r)) g0)))) \<and>
            r_geomagnetic r = fst (rnd_randint R 1 9
                        (snd (rnd_uniform R 1 35
                           (snd (get_weather_data R (weather (r_lat r) (r_lon r)) g0)))))"
    using p(3) by (simp add: sampled_ok_def)
next
  assume "\<forall>p \<in> set (every_third route_points). \<forall>g0. \<exists>c.
          json_gt (fst (get_weather_data R (weather (fst p) (snd p)) g0)) 70 = Inr c"
  then show "\<exists>rs g'. predict_outage_along_route R weather reverse route_points g = (Inr rs, g')"
    unfolding predict_outage_along_route_def by (rule route_results_total)
qed

lemma fallback_cloud_comparable:
  "\<exists>c. json_gt (fst (get_weather_data R (Fails e) g0)) 70 = Inr c"
  by (simp add: get_weather_data_def unchecked_json_def bind_exn_def split_beta)

theorem route_overview_profile_C_witness:
  "\<exists>rs g'. predict_outage_along_route lcg_random (\<lambda>lat lon. Fails Timeout) (\<lambda>lat lon. RevNone)
              [(12, 77), (121 / 10, 771 / 10), (122 / 10, 772 / 10), (123 / 10, 773 / 10)] 75
            = (Inr rs, g')
          \<and> length rs = 2
          \<and> (r_lat (rs ! 0), r_lon (rs ! 0)) = (12, 77)
          \<and> (r_lat (rs ! 1), r_lon (rs ! 1)) = (123 / 10, 773 / 10)
          \<and> r_outage (rs ! 0) = (json_gt (r_cloud_cover (rs ! 0)) 70 = Inr True \<and>
               20 < r_tec (rs ! 0) \<and> 6 \<le> r_geomagnetic (rs ! 0))"
proof -
  let ?route = "[(12, 77), (121 / 10, 771 / 10), (122 / 10, 772 / 10), (123 / 10, 773 / 10)]
                  :: (real \<times> real) list"
  note t = route_overview_profile_C [where R = lcg_random and weather = "\<lambda>lat lon. Fails Timeout"
      and reverse = "\<lambda>lat lon. RevNone" and route_points = ?route and g = 75]
  have h: "\<forall>p \<in> set (every_third ?route). \<forall>g0. \<exists>c.
          json_gt (fst (get_weather_data lcg_random ((\<lambda>lat lon. Fails Timeout) (fst p) (snd p)) g0)) 70 = Inr c"
    by (intro ballI allI) (rule fallback_cloud_comparable)
  from t h obtain rs g' where
    r: "predict_outage_along_route lcg_random (\<lambda>lat lon. Fails Timeout) (\<lambda>lat lon. RevNone) ?route 75
          = (Inr rs, g')" by blast
  from t [where rs = rs and g' = g'] r have
    l: "length rs = (length ?route + 2) div 3"
    and n: "\<forall>k < length rs. (r_lat (rs ! k), r_lon (rs ! k)) = ?route ! (3 * k)"
    and o: "\<forall>r \<in> set rs.
            r_outage r = (json_gt (r_cloud_cover r) 70 = Inr True \<and> 20 < r_tec r \<and> 6 \<le> r_geomagnetic r)"
    by blast+
  from l have l2: "length rs = 2" by simp
  with n have "(r_lat (rs ! 0), r_lon (rs ! 0)) = ?route ! (3 * 0)"
    "(r_lat (rs ! 1), r_lon (rs ! 1)) = ?route ! (3 * 1)" by simp_all
  then have c: "(r_lat (rs ! 0), r_lon (rs ! 0)) = (12, 77)"
    "(r_lat (rs ! 1), r_lon (rs ! 1)) = (123 / 10, 773 / 10)" by simp_all
  from l2 have "rs ! 0 \<in> set rs" by simp
  with o have "r_outage (rs ! 0) = (json_gt (r_cloud_cover (rs ! 0)) 70 = Inr True \<and>
               20 < r_tec (rs ! 0) \<and> 6 \<le> r_geomagnetic (rs ! 0))" by blast
  with r l2 c show ?thesis by blast
qed

lemma sampled_ok_ranges:
  assumes c: "random_contract R" and s: "sampled_ok R weather r"
  shows "1 \<le> r_geomagnetic r" "r_geomagnetic r \<le> 9" "1 \<le> r_tec r" "r_tec r \<le> 35"
proof -
  from s obtain g0 where
    t: "r_tec r = py_round2 (fst (rnd_uniform R 1 35
                       (snd (get_weather_data R (weather (r_lat r) (r_lon r)) g0))))"
    and k: "r_geomagnetic r = fst (rnd_randint R 1 9
                       (snd (rnd_uniform R 1 35
                          (snd (get_weather_data R (weather (r_lat r) (r_lon r)) g0)))))"
    unfolding sampled_ok_def by blast
  have i: "(1::int) \<le> 9" and u: "(1::real) \<le> 35" by simp_all
  show "1 \<le> r_geomagnetic r" unfolding k by (rule randint_bounds(1)[OF c i])
  show "r_geomagnetic r \<le> 9" unfolding k by (rule randint_bounds(2)[OF c i])
  show "1 \<le> r_tec r" unfolding t
    by (rule py_round2_bounds(1)) (rule uniform_bounds[OF c u])+
  show "r_tec r \<le> 35" unfolding t
    by (rule py_round2_bounds(2)) (rule uniform_bounds[OF c u])+
qed

lemma overview_first_call:
  "predict_outage_along_route lcg_random (\<lambda>lat lon. Fails Timeout)
     (\<lambda>lat lon. RevFound ''Bengaluru'') [(12, 77)] 75
   = (Inr [\<lparr> r_lat = 12, r_lon = 77, r_place = ''Bengaluru'', r_cloud_cover = JNum 75,
              r_tec = 2477 / 100, r_geomagnetic = 6, r_outage = True \<rparr>], 14906)"
  by (simp add: predict_outage_along_route_def get_weather_data_def unchecked_json_def
        bind_exn_def lcg_random_def lcg_next_def py_round2_def round_half_even_def
        get_place_name_def Let_def)

lemma overview_second_call:
  "predict_outage_along_route lcg_random (\<lambda>lat lon. Fails Timeout)
     (\<lambda>lat lon. RevFound ''Bengaluru'') [(12, 77)] 14906
   = (Inr [\<lparr> r_lat = 12, r_lon = 77, r_place = ''Bengaluru'', r_cloud_cover = JNum 59,
              r_tec = 3143 / 100, r_geomagnetic = 1, r_outage = False \<rparr>], 25641)"
  by (simp add: predict_outage_along_route_def get_weather_data_def unchecked_json_def
        bind_exn_def lcg_random_def lcg_next_def py_round2_def round_half_even_def
        get_place_name_def Let_def)

text \<open>
  C10. The route-overview helper is not reproducible. Its TEC draw \<open>uniform(1, 35)\<close>, its
  Kp draw \<open>randint(1, 9)\<close> and its fallback cloud value \<open>randint(0, 100)\<close> are taken from the
  state of the process-global generator, which no code seeds and which is an input of
  the helper here. So Kp lies from 1 to 9 and is never 0, TEC lies from 1 to 35, and
  there is a generator within the module's contract for which two invocations in a row
  on the same route return different cloud, TEC, Kp and outage values.
\<close>

theorem route_overview_not_reproducible:
  "(random_contract R \<and>
      predict_outage_along_route R weather reverse route_points g = (Inr rs, g') \<longrightarrow>
      (\<forall>r \<in> set rs. 1 \<le> r_geomagnetic r \<and> r_geomagnetic r \<le> 9 \<and> r_geomagnetic r \<noteq> 0 \<and>
                      1 \<le> r_tec r \<and> r_tec r \<le> 35))
   \<and> get_weather_data R (Fails e) g =
        (JNum (of_int (fst (rnd_randint R 0 100 g))), snd (rnd_randint R 0 100 g))
   \<and> (\<exists>(R0 :: nat py_random) w v route g0 r1 g1 r2 g2.
        random_contract R0 \<and>
        predict_outage_along_route R0 w v route g0 = (Inr [r1], g1) \<and>
        predict_outage_along_route R0 w v route g1 = (Inr [r2], g2) \<and>
        r_lat r1 = r_lat r2 \<and> r_lon r1 = r_lon r2 \<and>
        r_cloud_cover r1 \<noteq> r_cloud_cover r2 \<and> r_tec r1 \<noteq> r_tec r2 \<and>
        r_geomagnetic r1 \<noteq> r_geomagnetic r2 \<and> r_outage r1 \<noteq> r_outage r2)"
proof (intro conjI impI ballI)
  fix r
  assume a: "random_contract R \<and>
      predict_outage_along_route R weather reverse route_points g = (Inr rs, g')"
    and r: "r \<in> set rs"
  from a have c: "random_contract R" by simp
  from a have "predict_outage_along_route R weather reverse route_points g = (Inr rs, g')" by simp
  from predict_outage_along_route_props(3)[OF this] r have s: "sampled_ok R weather r" by blast
  note b = sampled_ok_ranges[OF c s]
  show "1 \<le> r_geomagnetic r" by (rule b(1))
  show "r_geomagnetic r \<le> 9" by (rule b(2))
  show "r_geomagnetic r \<noteq> 0" using b(1) by simp
  show "1 \<le> r_tec r" by (rule b(3))
  show "r_tec r \<le> 35" by (rule b(4))
next
  show "get_weather_data R (Fails e) g =
        (JNum (of_int (fst (rnd_randint R 0 100 g))), snd (rnd_randint R 0 100 g))"
    by (rule get_weather_data_fallback [where e = e]) (simp add: unchecked_json_def)
next
  show "\<exists>(R0 :: nat py_random) w v route g0 r1 g1 r2 g2.
        random_contract R0 \<and>
        predict_outage_along_route R0 w v route g0 = (Inr [r1], g1) \<and>
        predict_outage_along_route R0 w v route g1 = (Inr [r2], g2) \<and>
        r_lat r1 = r_lat r2 \<and> r_lon r1 = r_lon r2 \<and>
        r_cloud_cover r1 \<noteq> r_cloud_cover r2 \<and> r_tec r1 \<noteq> r_tec r2 \<and>
        r_geomagnetic r1 \<noteq> r_geomagnetic r2 \<and> r_outage r1 \<noteq> r_outage r2"
    apply (rule exI [where x = lcg_random])
    apply (rule exI [where x = "\<lambda>lat lon. Fails Timeout"])
    apply (rule exI [where x = "\<lambda>lat lon. RevFound ''Bengaluru''"])
    apply (rule exI [where x = "[(12, 77)]"])
    apply (rule exI [where x = 75])
    apply (rule exI [where x = "\<lparr> r_lat = 12, r_lon = 77, r_place = ''Bengaluru'',
              r_cloud_cover = JNum 75, r_tec = 2477 / 100, r_geomagnetic = 6, r_outage = True \<rparr>"])
    apply (rule exI [where x = 14906])
    apply (rule exI [where x = "\<lparr> r_lat = 12, r_lon = 77, r_place = ''Bengaluru'',
              r_cloud_cover = JNum 59, r_tec = 3143 / 100, r_geomagnetic = 1, r_outage = False \<rparr>"])
    apply (rule exI [where x = 25641])
    apply (simp add: lcg_random_contract overview_first_call overview_second_call)
    done
qed

theorem route_overview_not_reproducible_witness:
  "random_contract lcg_random
   \<and> predict_outage_along_route lcg_random (\<lambda>lat lon. Fails Timeout)
       (\<lambda>lat lon. RevFound ''Bengaluru'') [(12, 77)] 75
     = (Inr [\<lparr> r_lat = 12, r_lon = 77, r_place = ''Bengaluru'', r_cloud_cover = JNum 75,
                r_tec = 2477 / 100, r_geomagnetic = 6, r_outage = True \<rparr>], 14906)
   \<and> (1::int) \<le> 6 \<and> (6::int) \<le> 9 \<and> (1::real) \<le> 2477 / 100 \<and> (2477 / 100 :: real) \<le> 35"
proof -
  let ?r = "\<lparr> r_lat = 12, r_lon = 77, r_place = ''Bengaluru'', r_cloud_cover = JNum 75,
                r_tec = 2477 / 100, r_geomagnetic = 6, r_outage = True \<rparr>"
  note t = route_overview_not_reproducible [where R = lcg_random
      and weather = "\<lambda>lat lon. Fails Timeout" and reverse = "\<lambda>lat lon. RevFound ''Bengaluru''"
      and route_points = "[(12, 77)]" and g = 75 and rs = "[?r]" and g' = 14906]
  from conjunct1 [OF t] lcg_random_contract overview_first_call
  have "\<forall>r \<in> set [?r]. 1 \<le> r_geomagnetic r \<and> r_geomagnetic r \<le> 9 \<and> r_geomagnetic r \<noteq> 0 \<and>
                      1 \<le> r_tec r \<and> r_tec r \<le> 35"
    by blast
  then have "1 \<le> r_geomagnetic ?r \<and> r_geomagnetic ?r \<le> 9 \<and> 1 \<le> r_tec ?r \<and> r_tec ?r \<le> 35"
    by simp
  then show ?thesis using lcg_random_contract overview_first_call by simp
qed

end
